theory Spec2Isabelle
  imports Main "HOL-Library.AList" "HOL-Library.Multiset" "HOL-Library.Sublist"
begin

section \<open>Transfer records (transfer/types.ts)\<close>

text \<open>
  A \<open>Date\<close> is modelled by its \<open>getTime()\<close> value, an integer number of
  milliseconds; only valid dates are modelled. Strings are character lists.
  An optional field \<open>f?: T\<close> is a \<open>T option\<close>, with \<open>None\<close> for
  \<open>undefined\<close>.
\<close>

datatype TransferKind = Deposit | Withdrawal

datatype TransferMode = Interactive

text \<open>
  The enum members \<open>INITIATING\<close> and \<open>INTERACTIVE\<close> both have the value
  \<open>'incomplete'\<close>, so at run time they are one value: \<open>INCOMPLETE\<close>.
\<close>

datatype TransferStatus =
    INCOMPLETE
  | PENDING_USER_TRANSFER_START
  | PENDING_EXTERNAL
  | COMPLETED
  | ERROR
  | REFUNDED
  | PENDING_USER
  | PENDING_ANCHOR

fun statusString :: "TransferStatus \<Rightarrow> string" where
  "statusString INCOMPLETE = ''incomplete''"
| "statusString PENDING_USER_TRANSFER_START = ''pending_user_transfer_start''"
| "statusString PENDING_EXTERNAL = ''pending_external''"
| "statusString COMPLETED = ''completed''"
| "statusString ERROR = ''error''"
| "statusString REFUNDED = ''refunded''"
| "statusString PENDING_USER = ''pending_user''"
| "statusString PENDING_ANCHOR = ''pending_anchor''"

record InteractiveToken =
  token :: string
  tokenCreatedAt :: int
  expiresAt :: int
  used :: bool

record Transfer =
  transfer_id :: string
  kind :: TransferKind
  mode :: TransferMode
  status :: TransferStatus
  assetCode :: string
  assetIssuer :: "string option"
  account :: string
  amount :: "string option"
  interactiveToken :: "InteractiveToken option"
  interactiveUrl :: "string option"
  more_info_url :: "string option"
  externalTransactionId :: "string option"
  stellarTransactionId :: "string option"
  message :: "string option"
  createdAt :: int
  updatedAt :: int
  completedAt :: "int option"
  metadata :: "(string \<times> string option) list option"

text \<open>
  \<open>Partial<Transfer>\<close>: every key may be absent (\<open>None\<close>). A key of an
  optional field may also be present with the value \<open>undefined\<close>
  (\<open>Some None\<close>), and the object spread copies such a key like any other.
\<close>

record TransferUpdates =
  u_id :: "string option"
  u_kind :: "TransferKind option"
  u_mode :: "TransferMode option"
  u_status :: "TransferStatus option"
  u_assetCode :: "string option"
  u_assetIssuer :: "string option option"
  u_account :: "string option"
  u_amount :: "string option option"
  u_interactiveToken :: "InteractiveToken option option"
  u_interactiveUrl :: "string option option"
  u_more_info_url :: "string option option"
  u_externalTransactionId :: "string option option"
  u_stellarTransactionId :: "string option option"
  u_message :: "string option option"
  u_createdAt :: "int option"
  u_updatedAt :: "int option"
  u_completedAt :: "int option option"
  u_metadata :: "(string \<times> string option) list option option"

definition noUpdates :: TransferUpdates where
  "noUpdates = \<lparr> u_id = None, u_kind = None, u_mode = None, u_status = None,
     u_assetCode = None, u_assetIssuer = None, u_account = None, u_amount = None,
     u_interactiveToken = None, u_interactiveUrl = None, u_more_info_url = None,
     u_externalTransactionId = None, u_stellarTransactionId = None, u_message = None,
     u_createdAt = None, u_updatedAt = None, u_completedAt = None, u_metadata = None \<rparr>"

text \<open>The object spread \<open>{ ...existing, ...updates }\<close>.\<close>

definition spreadKey :: "'a \<Rightarrow> 'a option \<Rightarrow> 'a" where
  "spreadKey old new = (case new of None \<Rightarrow> old | Some v \<Rightarrow> v)"

definition spreadTransfer :: "Transfer \<Rightarrow> TransferUpdates \<Rightarrow> Transfer" where
  "spreadTransfer existing updates =
     \<lparr> transfer_id = spreadKey (transfer_id existing) (u_id updates),
       kind = spreadKey (kind existing) (u_kind updates),
       mode = spreadKey (mode existing) (u_mode updates),
       status = spreadKey (status existing) (u_status updates),
       assetCode = spreadKey (assetCode existing) (u_assetCode updates),
       assetIssuer = spreadKey (assetIssuer existing) (u_assetIssuer updates),
       account = spreadKey (account existing) (u_account updates),
       amount = spreadKey (amount existing) (u_amount updates),
       interactiveToken = spreadKey (interactiveToken existing) (u_interactiveToken updates),
       interactiveUrl = spreadKey (interactiveUrl existing) (u_interactiveUrl updates),
       more_info_url = spreadKey (more_info_url existing) (u_more_info_url updates),
       externalTransactionId =
         spreadKey (externalTransactionId existing) (u_externalTransactionId updates),
       stellarTransactionId =
         spreadKey (stellarTransactionId existing) (u_stellarTransactionId updates),
       message = spreadKey (message existing) (u_message updates),
       createdAt = spreadKey (createdAt existing) (u_createdAt updates),
       updatedAt = spreadKey (updatedAt existing) (u_updatedAt updates),
       completedAt = spreadKey (completedAt existing) (u_completedAt updates),
       metadata = spreadKey (metadata existing) (u_metadata updates) \<rparr>"

text \<open>The spread of one partial object over another, \<open>{ ...a, ...b }\<close>.\<close>

definition spreadOpt :: "'a option \<Rightarrow> 'a option \<Rightarrow> 'a option" where
  "spreadOpt old new = (case new of None \<Rightarrow> old | Some v \<Rightarrow> Some v)"

definition spreadUpdates :: "TransferUpdates \<Rightarrow> TransferUpdates \<Rightarrow> TransferUpdates" where
  "spreadUpdates a b =
     \<lparr> u_id = spreadOpt (u_id a) (u_id b),
       u_kind = spreadOpt (u_kind a) (u_kind b),
       u_mode = spreadOpt (u_mode a) (u_mode b),
       u_status = spreadOpt (u_status a) (u_status b),
       u_assetCode = spreadOpt (u_assetCode a) (u_assetCode b),
       u_assetIssuer = spreadOpt (u_assetIssuer a) (u_assetIssuer b),
       u_account = spreadOpt (u_account a) (u_account b),
       u_amount = spreadOpt (u_amount a) (u_amount b),
       u_interactiveToken = spreadOpt (u_interactiveToken a) (u_interactiveToken b),
       u_interactiveUrl = spreadOpt (u_interactiveUrl a) (u_interactiveUrl b),
       u_more_info_url = spreadOpt (u_more_info_url a) (u_more_info_url b),
       u_externalTransactionId =
         spreadOpt (u_externalTransactionId a) (u_externalTransactionId b),
       u_stellarTransactionId =
         spreadOpt (u_stellarTransactionId a) (u_stellarTransactionId b),
       u_message = spreadOpt (u_message a) (u_message b),
       u_createdAt = spreadOpt (u_createdAt a) (u_createdAt b),
       u_updatedAt = spreadOpt (u_updatedAt a) (u_updatedAt b),
       u_completedAt = spreadOpt (u_completedAt a) (u_completedAt b),
       u_metadata = spreadOpt (u_metadata a) (u_metadata b) \<rparr>"

record FindByAccountOptions =
  o_assetCode :: "string option"
  o_kind :: "TransferKind option"
  o_noOlderThan :: "int option"
  o_limit :: "int option"

section \<open>The in-memory transfer store (transfer/transfer-store.ts)\<close>

text \<open>
  \<open>transfers\<close> is a JavaScript \<open>Map\<close>, which iterates in insertion order
  and keeps the position of a key that is set again: an association list
  with \<open>AList.update\<close>. The order of \<open>tokenIndex\<close> is never observed, so
  it is a partial function.
\<close>

record InMemoryTransferStore =
  transfers :: "(string \<times> Transfer) list"
  tokenIndex :: "string \<rightharpoonup> string"

definition emptyStore :: InMemoryTransferStore where
  "emptyStore = \<lparr> transfers = [], tokenIndex = Map.empty \<rparr>"

definition create :: "InMemoryTransferStore \<Rightarrow> Transfer \<Rightarrow> InMemoryTransferStore" where
  "create st transfer =
     (let st1 = st\<lparr> transfers := AList.update (transfer_id transfer) transfer (transfers st) \<rparr>
      in case interactiveToken transfer of
           Some tok \<Rightarrow> st1\<lparr> tokenIndex := (tokenIndex st1)(token tok \<mapsto> transfer_id transfer) \<rparr>
         | None \<Rightarrow> st1)"

definition getById :: "InMemoryTransferStore \<Rightarrow> string \<Rightarrow> Transfer option" where
  "getById st i = map_of (transfers st) i"

text \<open>
  \<open>update(id, updates)\<close>; \<open>now\<close> is the value of \<open>new Date()\<close>. The
  result is the returned transfer (\<open>None\<close> for \<open>null\<close>) and the store
  after the call.
\<close>

definition update ::
  "int \<Rightarrow> InMemoryTransferStore \<Rightarrow> string \<Rightarrow> TransferUpdates
    \<Rightarrow> Transfer option \<times> InMemoryTransferStore" where
  "update now st i updates =
     (case map_of (transfers st) i of
        None \<Rightarrow> (None, st)
      | Some existing \<Rightarrow>
          (let updated = (spreadTransfer existing updates)\<lparr> transfer_id := i, updatedAt := now \<rparr>;
               st1 = st\<lparr> transfers := AList.update i updated (transfers st) \<rparr>;
               st2 = (case (interactiveToken updated, u_interactiveToken updates) of
                        (Some tok, Some (Some _)) \<Rightarrow>
                          st1\<lparr> tokenIndex := (tokenIndex st1)(token tok \<mapsto> i) \<rparr>
                      | _ \<Rightarrow> st1)
           in (Some updated, st2)))"

text \<open>\<open>options?.f\<close>: \<open>undefined\<close> when \<open>options\<close> is.\<close>

definition optField :: "'o option \<Rightarrow> ('o \<Rightarrow> 'a option) \<Rightarrow> 'a option" where
  "optField options f = (case options of None \<Rightarrow> None | Some opts \<Rightarrow> f opts)"

text \<open>
  \<open>listByAccount(account, options)\<close>. The guards \<open>if (options?.assetCode)\<close>
  and \<open>options?.limit && options.limit > 0\<close> test truthiness: the empty
  string and the number 0 are false. \<open>Array.prototype.sort\<close> is stable, so
  the comparator \<open>b.createdAt - a.createdAt\<close> yields the stable sort on the
  negated creation time. A limit is an integer; \<open>NaN\<close>, which is falsy, is
  \<open>None\<close>.
\<close>

definition listByAccount ::
  "InMemoryTransferStore \<Rightarrow> string \<Rightarrow> FindByAccountOptions option \<Rightarrow> Transfer list" where
  "listByAccount st acct options =
     (let results0 = filter (\<lambda>t. account t = acct) (map snd (transfers st));
          results1 = (case optField options o_assetCode of
                        Some c \<Rightarrow> if c \<noteq> [] then filter (\<lambda>t. assetCode t = c) results0
                                  else results0
                      | None \<Rightarrow> results0);
          results2 = (case optField options o_kind of
                        Some k \<Rightarrow> filter (\<lambda>t. kind t = k) results1
                      | None \<Rightarrow> results1);
          results3 = (case optField options o_noOlderThan of
                        Some d \<Rightarrow> filter (\<lambda>t. createdAt t \<ge> d) results2
                      | None \<Rightarrow> results2);
          results4 = sort_key (\<lambda>t. - createdAt t) results3
      in case optField options o_limit of
           Some n \<Rightarrow> if n \<noteq> 0 \<and> n > 0 then take (nat n) results4 else results4
         | None \<Rightarrow> results4)"

subsection \<open>What the specification asks of a listing\<close>

text \<open>
  The specification's words for \<open>listByAccount\<close>, to compare the code
  with: which stored transfers are selected, what "newest first" means, and
  which limit is in force (a limit that is absent, zero or negative is none).
\<close>

definition matchesFilters :: "string \<Rightarrow> FindByAccountOptions option \<Rightarrow> Transfer \<Rightarrow> bool" where
  "matchesFilters acct options t \<longleftrightarrow>
     account t = acct \<and>
     (case optField options o_assetCode of Some c \<Rightarrow> c = [] \<or> assetCode t = c | None \<Rightarrow> True) \<and>
     (case optField options o_kind of Some k \<Rightarrow> kind t = k | None \<Rightarrow> True) \<and>
     (case optField options o_noOlderThan of Some d \<Rightarrow> d \<le> createdAt t | None \<Rightarrow> True)"

definition limitOf :: "FindByAccountOptions option \<Rightarrow> nat option" where
  "limitOf options =
     (case optField options o_limit of
        Some n \<Rightarrow> if n > 0 then Some (nat n) else None
      | None \<Rightarrow> None)"

definition withoutLimit :: "FindByAccountOptions option \<Rightarrow> FindByAccountOptions option" where
  "withoutLimit options = map_option (\<lambda>opts. opts\<lparr> o_limit := None \<rparr>) options"

definition newestFirst :: "Transfer list \<Rightarrow> bool" where
  "newestFirst ts = sorted_wrt (\<lambda>a b. createdAt a \<ge> createdAt b) ts"

section \<open>Errors (errors.ts)\<close>

text \<open>
  A JSON value as far as the error envelopes and responses need it. A JavaScript
  object is an association list in insertion order; setting a key that is
  present keeps its position. \<open>JSON.stringify\<close> leaves out the keys whose
  value is \<open>undefined\<close>.
\<close>

datatype jsval = JString string | JNumber int | JBool bool | JNull | JUndefined

type_synonym jsobject = "(string \<times> jsval) list"

definition spreadObject :: "jsobject \<Rightarrow> jsobject option \<Rightarrow> jsobject" where
  "spreadObject obj extra =
     (case extra of None \<Rightarrow> obj | Some kvs \<Rightarrow> foldl (\<lambda>acc (k, v). AList.update k v acc) obj kvs)"

definition jsonKeys :: "jsobject \<Rightarrow> string list" where
  "jsonKeys obj = map fst (filter (\<lambda>(k, v). v \<noteq> JUndefined) obj)"

record SepError =
  se_message :: string
  se_code :: string
  se_status :: int
  se_details :: "jsobject option"

definition toJSON :: "SepError \<Rightarrow> jsobject" where
  "toJSON e =
     spreadObject [(''error'', JString (se_message e)), (''code'', JString (se_code e))]
       (se_details e)"

definition badRequest :: "string \<Rightarrow> SepError" where
  "badRequest msg =
     \<lparr> se_message = msg, se_code = ''bad_request'', se_status = 400, se_details = None \<rparr>"

definition notFound :: "string \<Rightarrow> SepError" where
  "notFound msg =
     \<lparr> se_message = msg, se_code = ''not_found'', se_status = 404, se_details = None \<rparr>"

text \<open>
  What a \<open>catch (error: any)\<close> can receive: a \<open>SepError\<close>, or any other
  value, of which the handlers read only \<open>error?.message\<close> and
  \<open>error?.status\<close>. \<open>new Error(msg)\<close> has a message and no status.
\<close>

datatype thrown = Sep SepError | Other "string option" "int option"

definition Error :: "string \<Rightarrow> thrown" where
  "Error msg = Other (Some msg) None"

record response =
  res_status :: int
  res_body :: jsobject

text \<open>
  The \<open>catch\<close> block that every route handler ends with; \<open>dflt\<close> is
  the status of \<open>error?.status ?? dflt\<close> (400 or 500, by route).
\<close>

definition catchResponse :: "int \<Rightarrow> thrown \<Rightarrow> response" where
  "catchResponse dflt err =
     (let sepError =
        (case err of
           Sep e \<Rightarrow> e
         | Other msg st \<Rightarrow>
             \<lparr> se_message = (case msg of Some m \<Rightarrow> m | None \<Rightarrow> ''Internal server error''),
               se_code = ''error'',
               se_status = (case st of Some n \<Rightarrow> n | None \<Rightarrow> dflt),
               se_details = None \<rparr>)
      in \<lparr> res_status = se_status sepError, res_body = toJSON sepError \<rparr>)"

section \<open>The SEP-24 service (transfer/sep24/sep24-service.ts)\<close>

record Sep24TransferConfig =
  baseUrl :: "string option"
  cfg_interactiveUrl :: string
  tokenExpiration :: "int option"
  supportedAssets :: "string list option"

record TransferRequest =
  rq_assetCode :: string
  rq_assetIssuer :: "string option"
  rq_account :: string
  rq_amount :: "string option"
  rq_dest :: "string option"
  rq_destExtra :: "string option"

record InitiateResponse =
  rs_id :: string
  rs_url :: string
  rs_type :: string

text \<open>
  What the service takes from its platform, passed in: the \<open>URL\<close> class
  (\<open>new URL(base)\<close>, an optional new \<open>pathname\<close>, \<open>searchParams.set\<close>
  of each pair, \<open>toString()\<close>; \<open>None\<close> when the constructor throws), the
  random identifier and token of \<open>randomBytes\<close>, the two readings of the
  clock, and \<open>String.prototype.toUpperCase\<close>, which is the Unicode case
  conversion of the JavaScript engine.
\<close>

record Platform =
  makeUrl :: "string \<Rightarrow> string option \<Rightarrow> (string \<times> string) list \<Rightarrow> string option"
  freshId :: string
  freshToken :: string
  nowTransfer :: int
  nowToken :: int
  toUpperCase :: "string \<Rightarrow> string"

text \<open>
  The asset check with which \<open>initiateDeposit\<close> and
  \<open>initiateWithdrawal\<close> both begin (the source repeats it in each).
\<close>

definition checkSupportedAsset :: "Platform \<Rightarrow> Sep24TransferConfig \<Rightarrow> string \<Rightarrow> thrown option" where
  "checkSupportedAsset pf config code =
     (case supportedAssets config of
        None \<Rightarrow> None
      | Some assets \<Rightarrow>
          (let normalizedAssetCode = toUpperCase pf code;
               supportedAssetsUpper = map (\<lambda>a. toUpperCase pf a) assets
           in if normalizedAssetCode \<notin> set supportedAssetsUpper
              then Some (Error (''Asset '' @ code @ '' not supported by anchor''))
              else None))"

subsection \<open>What the specification asks of asset matching\<close>






definition createTransfer :: "Platform \<Rightarrow> TransferKind \<Rightarrow> TransferRequest \<Rightarrow> Transfer" where
  "createTransfer pf k request =
     \<lparr> transfer_id = freshId pf, kind = k, mode = Interactive, status = INCOMPLETE,
       assetCode = rq_assetCode request, assetIssuer = rq_assetIssuer request,
       account = rq_account request, amount = rq_amount request,
       interactiveToken = None, interactiveUrl = None, more_info_url = None,
       externalTransactionId = None, stellarTransactionId = None, message = None,
       createdAt = nowTransfer pf, updatedAt = nowTransfer pf, completedAt = None,
       metadata = Some [] \<rparr>"

definition DEFAULT_TOKEN_EXPIRATION_MS :: int where
  "DEFAULT_TOKEN_EXPIRATION_MS = 15 * 60 * 1000"

definition generateInteractiveToken :: "Platform \<Rightarrow> Sep24TransferConfig \<Rightarrow> InteractiveToken" where
  "generateInteractiveToken pf config =
     (let expirationMs = (case tokenExpiration config of
                            Some n \<Rightarrow> n | None \<Rightarrow> DEFAULT_TOKEN_EXPIRATION_MS)
      in \<lparr> token = freshToken pf, tokenCreatedAt = nowToken pf,
           expiresAt = nowToken pf + expirationMs, used = False \<rparr>)"

definition buildInteractiveUrl ::
  "Platform \<Rightarrow> Sep24TransferConfig \<Rightarrow> string \<Rightarrow> string \<Rightarrow> thrown + string" where
  "buildInteractiveUrl pf config transferId tok =
     (case makeUrl pf (cfg_interactiveUrl config) None
             [(''transaction_id'', transferId), (''token'', tok)] of
        None \<Rightarrow> Inl (Error ''Invalid URL'')
      | Some u \<Rightarrow> Inr u)"

definition buildMoreInfoUrl ::
  "Platform \<Rightarrow> Sep24TransferConfig \<Rightarrow> string \<Rightarrow> thrown + string" where
  "buildMoreInfoUrl pf config transferId =
     (case baseUrl config of
        None \<Rightarrow>
          Inl (Error ''baseUrl is required in Sep24TransferConfig to generate more_info_url'')
      | Some b \<Rightarrow>
          if b = [] then
            Inl (Error ''baseUrl is required in Sep24TransferConfig to generate more_info_url'')
          else (case makeUrl pf b (Some ''/sep24/transaction/more_info'') [(''id'', transferId)] of
                  None \<Rightarrow> Inl (Error ''Invalid URL'')
                | Some u \<Rightarrow> Inr u))"

text \<open>
  \<open>initiateDeposit\<close> and \<open>initiateWithdrawal\<close>: the thrown error or the
  response, and the store after the call. The withdrawal also records
  \<open>dest\<close> and \<open>destExtra\<close> in the metadata.
\<close>

definition initiate ::
  "TransferKind \<Rightarrow> Platform \<Rightarrow> Sep24TransferConfig \<Rightarrow> InMemoryTransferStore \<Rightarrow> TransferRequest
    \<Rightarrow> (thrown + InitiateResponse) \<times> InMemoryTransferStore" where
  "initiate k pf config st request =
     (case checkSupportedAsset pf config (rq_assetCode request) of
        Some err \<Rightarrow> (Inl err, st)
      | None \<Rightarrow>
          (let transfer = createTransfer pf k request;
               tok = generateInteractiveToken pf config
           in case buildInteractiveUrl pf config (transfer_id transfer) (token tok) of
                Inl err \<Rightarrow> (Inl err, st)
              | Inr url \<Rightarrow>
                  (case buildMoreInfoUrl pf config (transfer_id transfer) of
                     Inl err \<Rightarrow> (Inl err, st)
                   | Inr info \<Rightarrow>
                       (let transfer1 = transfer\<lparr> interactiveToken := Some tok,
                                                   interactiveUrl := Some url,
                                                   more_info_url := Some info \<rparr>;
                            transfer2 =
                              (case k of
                                 Deposit \<Rightarrow> transfer1
                               | Withdrawal \<Rightarrow>
                                   transfer1\<lparr> metadata :=
                                     Some (AList.update ''destExtra'' (rq_destExtra request)
                                            (AList.update ''dest'' (rq_dest request)
                                              (case metadata transfer1 of
                                                 Some m \<Rightarrow> m | None \<Rightarrow> []))) \<rparr>)
                        in (Inr \<lparr> rs_id = transfer_id transfer2, rs_url = url,
                                   rs_type = ''interactive_customer_info_needed'' \<rparr>,
                            create st transfer2)))))"

definition initiateDeposit ::
  "Platform \<Rightarrow> Sep24TransferConfig \<Rightarrow> InMemoryTransferStore \<Rightarrow> TransferRequest
    \<Rightarrow> (thrown + InitiateResponse) \<times> InMemoryTransferStore" where
  "initiateDeposit = initiate Deposit"

definition initiateWithdrawal ::
  "Platform \<Rightarrow> Sep24TransferConfig \<Rightarrow> InMemoryTransferStore \<Rightarrow> TransferRequest
    \<Rightarrow> (thrown + InitiateResponse) \<times> InMemoryTransferStore" where
  "initiateWithdrawal = initiate Withdrawal"

definition validateInteractiveToken ::
  "int \<Rightarrow> InMemoryTransferStore \<Rightarrow> string \<Rightarrow> string \<Rightarrow> thrown + Transfer" where
  "validateInteractiveToken now st i tok =
     (case getById st i of
        None \<Rightarrow> Inl (Error (''Transfer '' @ i @ '' not found''))
      | Some transfer \<Rightarrow>
          (case interactiveToken transfer of
             None \<Rightarrow> Inl (Error (''Transfer '' @ i @ '' has no interactive token''))
           | Some it \<Rightarrow>
               if token it \<noteq> tok then Inl (Error ''Invalid token'')
               else if used it then Inl (Error ''Token already used'')
               else if expiresAt it < now then Inl (Error ''Token expired'')
               else Inr transfer))"

definition getNextStatus :: "Transfer \<Rightarrow> TransferStatus" where
  "getNextStatus transfer =
     (if status transfer = INCOMPLETE
      then (if kind transfer = Deposit then PENDING_USER_TRANSFER_START else PENDING_ANCHOR)
      else status transfer)"

definition isTerminalStatus :: "TransferStatus \<Rightarrow> bool" where
  "isTerminalStatus s \<longleftrightarrow> s \<in> set [COMPLETED, ERROR, REFUNDED]"

text \<open>
  \<open>completeInteractive(id, token)\<close>; \<open>nowV\<close> and \<open>nowU\<close> are the clock
  readings in \<open>validateInteractiveToken\<close> and in \<open>store.update\<close>.
  \<open>getById\<close> returns a shallow copy, so the copy's \<open>interactiveToken\<close> is
  the stored transfer's token object: the assignment \<open>used = true\<close> already
  changes the stored transfer (\<open>markUsedInStore\<close>), before \<open>update\<close>
  writes the status.
\<close>

definition markUsedInStore :: "InMemoryTransferStore \<Rightarrow> string \<Rightarrow> InMemoryTransferStore" where
  "markUsedInStore st i =
     (case map_of (transfers st) i of
        None \<Rightarrow> st
      | Some stored \<Rightarrow>
          st\<lparr> transfers :=
                AList.update i
                  (stored\<lparr> interactiveToken :=
                            map_option (\<lambda>it. it\<lparr> used := True \<rparr>) (interactiveToken stored) \<rparr>)
                  (transfers st) \<rparr>)"

definition completeInteractive ::
  "int \<Rightarrow> int \<Rightarrow> InMemoryTransferStore \<Rightarrow> string \<Rightarrow> string
    \<Rightarrow> (thrown + Transfer) \<times> InMemoryTransferStore" where
  "completeInteractive nowV nowU st i tok =
     (case validateInteractiveToken nowV st i tok of
        Inl err \<Rightarrow> (Inl err, st)
      | Inr transfer0 \<Rightarrow>
          (let transfer = transfer0\<lparr> interactiveToken :=
                             map_option (\<lambda>it. it\<lparr> used := True \<rparr>) (interactiveToken transfer0) \<rparr>;
               st1 = markUsedInStore st i;
               (updated, st2) =
                 update nowU st1 i
                   (noUpdates\<lparr> u_status := Some (getNextStatus transfer),
                               u_interactiveToken := Some (interactiveToken transfer) \<rparr>)
           in case updated of
                None \<Rightarrow> (Inl (Error (''Failed to update transfer '' @ i)), st2)
              | Some u \<Rightarrow> (Inr u, st2)))"

text \<open>
  \<open>updateStatus(id, status, updates?)\<close>: the object literal
  \<open>{ status, completedAt, ...updates }\<close> is the spread of \<open>updates\<close> over
  the two computed keys, so a key of \<open>updates\<close> wins.
\<close>

definition updateStatus ::
  "int \<Rightarrow> int \<Rightarrow> InMemoryTransferStore \<Rightarrow> string \<Rightarrow> TransferStatus \<Rightarrow> TransferUpdates option
    \<Rightarrow> (thrown + Transfer) \<times> InMemoryTransferStore" where
  "updateStatus nowC nowU st i s updates =
     (case getById st i of
        None \<Rightarrow> (Inl (Error (''Transfer '' @ i @ '' not found'')), st)
      | Some existing \<Rightarrow>
          (let completedAtV = (if isTerminalStatus s then Some nowC else None);
               literal = noUpdates\<lparr> u_status := Some s, u_completedAt := Some completedAtV \<rparr>;
               merged = (case updates of None \<Rightarrow> literal | Some u \<Rightarrow> spreadUpdates literal u);
               (updated, st1) = update nowU st i merged
           in case updated of
                None \<Rightarrow> (Inl (Error (''Failed to update transfer '' @ i)), st1)
              | Some u \<Rightarrow> (Inr u, st1)))"

section \<open>The SEP-10 issuer (auth/nonce-store.ts, auth/auth-issuer.ts)\<close>

text \<open>The nonce store: a \<open>Map\<close> from nonce to insertion time.\<close>

type_synonym NonceStore = "string \<rightharpoonup> int"

definition NONCE_TTL :: int where
  "NONCE_TTL = 300000"

definition nonceAdd :: "int \<Rightarrow> NonceStore \<Rightarrow> string \<Rightarrow> bool \<times> NonceStore" where
  "nonceAdd now ns nonce =
     (if nonce \<in> dom ns then (False, ns) else (True, ns(nonce \<mapsto> now)))"

definition nonceHas :: "NonceStore \<Rightarrow> string \<Rightarrow> bool" where
  "nonceHas ns nonce \<longleftrightarrow> nonce \<in> dom ns"

definition clearExpired :: "int \<Rightarrow> NonceStore \<Rightarrow> NonceStore" where
  "clearExpired now ns =
     (\<lambda>nonce. case ns nonce of
                 None \<Rightarrow> None
               | Some timestamp \<Rightarrow> if now - timestamp > NONCE_TTL then None else Some timestamp)"

record JwtPayload =
  iss :: string
  sub :: "string option"
  iat :: int
  exp :: int

text \<open>
  The value of a \<open>manageData\<close> operation is a \<open>Buffer\<close> or a string; a
  buffer is kept as its base64 rendering, which is all the issuer reads.
\<close>

datatype opValue = BufferValue string | StringValue string

record Operation =
  op_type :: string
  op_value :: "opValue option"

record ChallengeTx =
  operations :: "Operation list option"

record ReadResult =
  tx :: ChallengeTx
  clientAccountID :: string

record Signer =
  signer_key :: string
  signer_weight :: int

record AccountData =
  signers :: "Signer list"
  med_threshold :: int

text \<open>
  The libraries the issuer calls, passed in as their results at the time of
  the call: the Stellar SDK's \<open>WebAuth\<close> functions (which check the
  envelope's signatures, domain and time bounds, and throw when a check
  fails), the Horizon account lookup (\<open>None\<close> when the call throws) and
  \<open>jsonwebtoken\<close>.
\<close>

record Sdk =
  buildChallengeTx :: "string \<Rightarrow> thrown + string"
  readChallengeTx :: "string \<Rightarrow> thrown + ReadResult"
  loadAccount :: "string \<Rightarrow> AccountData option"
  verifyChallengeTxSigners :: "string \<Rightarrow> string list \<Rightarrow> thrown + string list"
  jwtSign :: "JwtPayload \<Rightarrow> string"
  jwtVerify :: "string \<Rightarrow> JwtPayload option"

record AuthIssuer =
  ai_domain :: string
  ai_networkPassphrase :: string
  nonceStore :: NonceStore

definition tokenExpirationSeconds :: int where
  "tokenExpirationSeconds = 24 * 60 * 60"

text \<open>Decimal rendering of a number in a template string.\<close>

fun showNat :: "nat \<Rightarrow> string" where
  "showNat n =
     (if n < 10 then [char_of (48 + n)]
      else showNat (n div 10) @ [char_of (48 + n mod 10)])"

definition showInt :: "int \<Rightarrow> string" where
  "showInt i = (if i < 0 then CHR ''-'' # showNat (nat (- i)) else showNat (nat i))"

definition extractNonceFromTransaction :: "ChallengeTx \<Rightarrow> string option" where
  "extractNonceFromTransaction transaction =
     (case operations transaction of
        None \<Rightarrow> None
      | Some [] \<Rightarrow> None
      | Some (firstOp # _) \<Rightarrow>
          (if op_type firstOp = ''manageData'' then
             (case op_value firstOp of
                None \<Rightarrow> None
              | Some (BufferValue b64) \<Rightarrow> Some b64
              | Some (StringValue v) \<Rightarrow> if v = [] then None else Some v)
           else None))"

text \<open>
  A nonce that is the empty string is falsy, so \<open>if (!nonce)\<close> rejects it
  like \<open>null\<close>.
\<close>

definition createChallenge ::
  "Sdk \<Rightarrow> int \<Rightarrow> AuthIssuer \<Rightarrow> string \<Rightarrow> (thrown + string \<times> string) \<times> AuthIssuer" where
  "createChallenge sdk now ai clientPublicKey =
     (case buildChallengeTx sdk clientPublicKey of
        Inl err \<Rightarrow> (Inl err, ai)
      | Inr transactionXdr \<Rightarrow>
          (case readChallengeTx sdk transactionXdr of
             Inl err \<Rightarrow> (Inl err, ai)
           | Inr readResult \<Rightarrow>
               (case extractNonceFromTransaction (tx readResult) of
                  None \<Rightarrow> (Inl (Error ''Invalid challenge: nonce not found''), ai)
                | Some nonce \<Rightarrow>
                    if nonce = [] then (Inl (Error ''Invalid challenge: nonce not found''), ai)
                    else (Inr (transactionXdr, ai_networkPassphrase ai),
                          ai\<lparr> nonceStore := snd (nonceAdd now (nonceStore ai) nonce) \<rparr>))))"

definition signatureWeightOf :: "Signer list \<Rightarrow> string list \<Rightarrow> int" where
  "signatureWeightOf sgs signedByList =
     foldl (\<lambda>w sg. if signer_key sg \<in> set signedByList then w + signer_weight sg else w) 0 sgs"

text \<open>
  \<open>verifyChallenge(signedChallenge)\<close>; \<open>nowSec\<close> is
  \<open>Math.floor(Date.now() / 1000)\<close>. The result is the thrown error or the
  token and account, and the issuer after the call.
\<close>

definition verifyChallenge ::
  "Sdk \<Rightarrow> int \<Rightarrow> AuthIssuer \<Rightarrow> string \<Rightarrow> (thrown + string \<times> string) \<times> AuthIssuer" where
  "verifyChallenge sdk nowSec ai signedChallenge =
     (case readChallengeTx sdk signedChallenge of
        Inl err \<Rightarrow> (Inl err, ai)
      | Inr result \<Rightarrow>
          (let clientPublicKey = clientAccountID result;
               accountData = loadAccount sdk clientPublicKey;
               accountSigners = (case accountData of
                                   Some d \<Rightarrow> map signer_key (signers d)
                                 | None \<Rightarrow> [clientPublicKey])
           in case verifyChallengeTxSigners sdk signedChallenge accountSigners of
                Inl err \<Rightarrow> (Inl err, ai)
              | Inr signedByList \<Rightarrow>
                  (let weightError =
                         (case accountData of
                            None \<Rightarrow> None
                          | Some d \<Rightarrow>
                              (let mediumThreshold = med_threshold d;
                                   signatureWeight = signatureWeightOf (signers d) signedByList
                               in if signatureWeight < mediumThreshold
                                  then Some (Error (''Invalid challenge: signature weight ''
                                         @ showInt signatureWeight
                                         @ '' is less than required threshold ''
                                         @ showInt mediumThreshold))
                                  else None))
                   in case weightError of
                        Some err \<Rightarrow> (Inl err, ai)
                      | None \<Rightarrow>
                          (case extractNonceFromTransaction (tx result) of
                             None \<Rightarrow> (Inl (Error ''Invalid challenge: nonce not found''), ai)
                           | Some nonce \<Rightarrow>
                               if nonce = [] then
                                 (Inl (Error ''Invalid challenge: nonce not found''), ai)
                               else if \<not> nonceHas (nonceStore ai) nonce then
                                 (Inl (Error ''Invalid or expired nonce''), ai)
                               else
                                 (let payload = \<lparr> iss = ai_domain ai, sub = Some clientPublicKey,
                                                    iat = nowSec,
                                                    exp = nowSec + tokenExpirationSeconds \<rparr>
                                  in (Inr (jwtSign sdk payload, clientPublicKey), ai))))))"

text \<open>\<open>String.prototype.split\<close> with a one-character separator.\<close>

fun splitOn :: "char \<Rightarrow> string \<Rightarrow> string list" where
  "splitOn c [] = [[]]"
| "splitOn c (x # xs) =
     (if x = c then [] # splitOn c xs
      else (case splitOn c xs of
              [] \<Rightarrow> [[x]]
            | w # ws \<Rightarrow> (x # w) # ws))"

text \<open>
  The middleware of \<open>requireAuth()\<close>: a rejection, or the decoded claims
  that it attaches to the request before calling \<open>next()\<close>.
\<close>

definition requireAuth :: "Sdk \<Rightarrow> string option \<Rightarrow> response + JwtPayload" where
  "requireAuth sdk authHeader =
     (case authHeader of
        None \<Rightarrow>
          Inl \<lparr> res_status = 403,
                res_body = [(''error'', JString ''Missing authorization header'')] \<rparr>
      | Some h \<Rightarrow>
          if h = [] then
            Inl \<lparr> res_status = 403,
                  res_body = [(''error'', JString ''Missing authorization header'')] \<rparr>
          else
            (let parts = splitOn CHR '' '' h
             in if length parts \<noteq> 2 \<or> parts ! 0 \<noteq> ''Bearer'' then
                  Inl \<lparr> res_status = 403,
                        res_body = [(''error'', JString ''Invalid authorization header format'')] \<rparr>
                else
                  (case jwtVerify sdk (parts ! 1) of
                     None \<Rightarrow>
                       Inl \<lparr> res_status = 401,
                             res_body = [(''error'', JString ''Invalid or expired token'')] \<rparr>
                   | Some decoded \<Rightarrow> Inr decoded)))"

section \<open>The SEP-10 router (modules/sep10/router.ts)\<close>

text \<open>
  The \<open>catch\<close> block of the SEP-10 routes gives every error that is not a
  \<open>SepError\<close> the status 400.
\<close>

definition sep10CatchResponse :: "thrown \<Rightarrow> response" where
  "sep10CatchResponse err =
     (let sepError =
        (case err of
           Sep e \<Rightarrow> e
         | Other msg st \<Rightarrow>
             \<lparr> se_message = (case msg of Some m \<Rightarrow> m | None \<Rightarrow> ''Internal server error''),
               se_code = ''error'', se_status = 400, se_details = None \<rparr>)
      in \<lparr> res_status = se_status sepError, res_body = toJSON sepError \<rparr>)"

text \<open>\<open>POST /auth\<close>, with the \<open>transaction\<close> field of the body when it is a string.\<close>

definition postAuth ::
  "Sdk \<Rightarrow> int \<Rightarrow> AuthIssuer \<Rightarrow> string option \<Rightarrow> response \<times> AuthIssuer" where
  "postAuth sdk nowSec ai transaction =
     (case transaction of
        None \<Rightarrow>
          (sep10CatchResponse (Sep (badRequest ''transaction body field is required'')), ai)
      | Some t \<Rightarrow>
          if t = [] then
            (sep10CatchResponse (Sep (badRequest ''transaction body field is required'')), ai)
          else
            (case verifyChallenge sdk nowSec ai t of
               (Inl err, ai1) \<Rightarrow> (sep10CatchResponse err, ai1)
             | (Inr (tokenV, _), ai1) \<Rightarrow>
                 (\<lparr> res_status = 200, res_body = [(''token'', JString tokenV)] \<rparr>, ai1)))"

section \<open>Configuration and the anchor server (config/types.ts, anchor-server.ts)\<close>

datatype NetworkType = PUBLIC | TESTNET | FUTURENET | STANDALONE | MAINNET

datatype AssetStatus = LIVE | TEST | DEAD | PRIVATE

record AssetOperationConfig =
  enabled :: bool
  minAmount :: "int option"
  maxAmount :: "int option"
  feeFixed :: "int option"
  feePercent :: "int option"

record AssetConfig =
  issuer :: "string option"
  asset_name :: "string option"
  desc :: "string option"
  displayDecimals :: "int option"
  asset_status :: "AssetStatus option"
  deposit :: "AssetOperationConfig option"
  withdraw :: "AssetOperationConfig option"

record AnchorMeta =
  orgName :: "string option"
  orgUrl :: "string option"
  orgDescription :: "string option"
  orgLogo :: "string option"
  orgPhysicalAddress :: "string option"
  orgOfficialEmail :: "string option"
  orgSupportEmail :: "string option"

text \<open>
  \<open>assets\<close> is an object keyed by asset code: an association list in the
  order of \<open>Object.entries\<close>, read with \<open>map_of\<close> for \<open>assets[code]\<close>.
\<close>

record AnchorServerConfig =
  domain :: string
  network :: NetworkType
  assets :: "(string \<times> AssetConfig) list"
  meta :: "AnchorMeta option"

datatype MountedModule = sep10 | sep24 | sep6

text \<open>
  The server as the publisher and the routers read it; \<open>publicKey\<close> is the
  key that \<open>Keypair.fromSecret\<close> derives from the configured secret.
\<close>

record AnchorServer =
  config :: AnchorServerConfig
  publicKey :: string
  mountedModules :: "MountedModule set"

definition deriveNetworkPassphrase :: "NetworkType \<Rightarrow> string" where
  "deriveNetworkPassphrase n =
     (if n = PUBLIC \<or> n = MAINNET then ''Public Global Stellar Network ; September 2015''
      else if n = TESTNET then ''Test SDF Network ; September 2015''
      else if n = FUTURENET then ''Test SDF Future Network ; October 2022''
      else ''Standalone Network ; February 2017'')"

definition networkPassphrase :: "AnchorServer \<Rightarrow> string" where
  "networkPassphrase server = deriveNetworkPassphrase (network (config server))"

text \<open>\<open>String.prototype.trim\<close> on the space character.\<close>

definition trim :: "string \<Rightarrow> string" where
  "trim s = rev (dropWhile (\<lambda>c. c = CHR '' '') (rev (dropWhile (\<lambda>c. c = CHR '' '') s)))"

definition getBaseUrl :: "AnchorServerConfig \<Rightarrow> string" where
  "getBaseUrl cfg =
     (let d = trim (domain cfg)
      in if prefix ''http://'' d \<or> prefix ''https://'' d then d
         else (let isLocal = prefix ''localhost'' d \<or> prefix ''127.0.0.1'' d;
                   protocol = (if isLocal then ''http'' else ''https'')
               in protocol @ ''://'' @ d))"

text \<open>
  The three mounting methods. \<open>sep24(hooks)\<close> takes the hooks'
  \<open>interactive.url\<close> (\<open>None\<close> when the hooks or the field are missing)
  and throws without mounting when it is missing or empty. The dash of the
  message is a long dash in the source.
\<close>

definition mount_sep10 :: "AnchorServer \<Rightarrow> AnchorServer" where
  "mount_sep10 server = server\<lparr> mountedModules := insert sep10 (mountedModules server) \<rparr>"

definition mount_sep24 :: "string option \<Rightarrow> AnchorServer \<Rightarrow> thrown + AnchorServer" where
  "mount_sep24 interactiveUrlOpt server =
     (case interactiveUrlOpt of
        None \<Rightarrow> Inl (Sep (badRequest
          ''sep24() requires hooks with interactive.url - you must provide your own interactive flow URL''))
      | Some u \<Rightarrow>
          if u = [] then Inl (Sep (badRequest
            ''sep24() requires hooks with interactive.url - you must provide your own interactive flow URL''))
          else Inr (server\<lparr> mountedModules := insert sep24 (mountedModules server) \<rparr>))"

definition mount_sep6 :: "AnchorServer \<Rightarrow> AnchorServer" where
  "mount_sep6 server = server\<lparr> mountedModules := insert sep6 (mountedModules server) \<rparr>"

section \<open>The SEP-24 and SEP-6 routers (modules/sep24/router.ts, modules/sep6/router.ts)\<close>

text \<open>
  The body fields that the interactive routes read. The other fields of the
  body (memo, wallet name, language, ...) are handed to the service, which
  never reads them.
\<close>

record InteractiveBody =
  b_asset_code :: "string option"
  b_amount :: "string option"
  b_account :: "string option"
  b_dest :: "string option"
  b_dest_extra :: "string option"

text \<open>JavaScript truthiness of an optional string, and \<open>a || b\<close>.\<close>

definition truthy :: "string option \<Rightarrow> bool" where
  "truthy v \<longleftrightarrow> (case v of None \<Rightarrow> False | Some x \<Rightarrow> x \<noteq> [])"

definition orElse :: "string option \<Rightarrow> string option \<Rightarrow> string option" where
  "orElse a b = (if truthy a then a else b)"

definition nullish :: "string option \<Rightarrow> string option \<Rightarrow> string option" where
  "nullish a b = (case a of None \<Rightarrow> b | Some x \<Rightarrow> Some x)"

text \<open>
  \<open>POST /transactions/deposit/interactive\<close> behind the guard.
  \<open>validAddress\<close> is \<open>isValidStellarAddress\<close> of the core package.
  The transfer manager that stands between the routes and the service
  (transfer/transfer-manager.ts) only forwards each call.
\<close>

definition postDepositInteractive ::
  "Sdk \<Rightarrow> (string \<Rightarrow> bool) \<Rightarrow> Platform \<Rightarrow> Sep24TransferConfig \<Rightarrow> InMemoryTransferStore
    \<Rightarrow> string option \<Rightarrow> InteractiveBody \<Rightarrow> response \<times> InMemoryTransferStore" where
  "postDepositInteractive sdk validAddress pf cfg st authHeader body =
     (case requireAuth sdk authHeader of
        Inl rejection \<Rightarrow> (rejection, st)
      | Inr user \<Rightarrow>
          (let acct = sub user; requestAccount = b_account body
           in if \<not> truthy (b_asset_code body) then
                (catchResponse 400 (Sep (badRequest (CHR 0x27 # ''asset_code'' @ CHR 0x27 # '' is required''))), st)
              else if truthy requestAccount \<and> \<not> validAddress (the requestAccount) then
                (catchResponse 400 (Sep (badRequest ''invalid account'')), st)
              else
                (let resolvedAccount = nullish acct requestAccount
                 in if \<not> truthy resolvedAccount then
                      (catchResponse 400 (Sep (badRequest ''account is required'')), st)
                    else
                      (case initiateDeposit pf cfg st
                              \<lparr> rq_assetCode = the (b_asset_code body), rq_assetIssuer = None,
                                rq_account = the resolvedAccount, rq_amount = b_amount body,
                                rq_dest = None, rq_destExtra = None \<rparr> of
                         (Inl err, st1) \<Rightarrow> (catchResponse 400 err, st1)
                       | (Inr r, st1) \<Rightarrow>
                           (\<lparr> res_status = 200,
                              res_body = [(''type'', JString (rs_type r)), (''id'', JString (rs_id r)),
                                          (''url'', JString (rs_url r))] \<rparr>, st1)))))"

definition postWithdrawInteractive ::
  "Sdk \<Rightarrow> (string \<Rightarrow> bool) \<Rightarrow> Platform \<Rightarrow> Sep24TransferConfig \<Rightarrow> InMemoryTransferStore
    \<Rightarrow> string option \<Rightarrow> InteractiveBody \<Rightarrow> response \<times> InMemoryTransferStore" where
  "postWithdrawInteractive sdk validAddress pf cfg st authHeader body =
     (case requireAuth sdk authHeader of
        Inl rejection \<Rightarrow> (rejection, st)
      | Inr user \<Rightarrow>
          (let acct = sub user; requestAccount = b_account body
           in if \<not> truthy (b_asset_code body) then
                (catchResponse 400 (Sep (badRequest (CHR 0x27 # ''asset_code'' @ CHR 0x27 # '' is required''))), st)
              else if truthy requestAccount \<and> \<not> validAddress (the requestAccount) then
                (catchResponse 400 (Sep (badRequest ''invalid account'')), st)
              else
                (let paramsAccount = nullish acct requestAccount
                 in if \<not> truthy paramsAccount then
                      (catchResponse 400 (Sep (badRequest ''account is required'')), st)
                    else
                      (case initiateWithdrawal pf cfg st
                              \<lparr> rq_assetCode = the (b_asset_code body), rq_assetIssuer = None,
                                rq_account = the paramsAccount, rq_amount = b_amount body,
                                rq_dest = orElse (b_dest body) acct,
                                rq_destExtra = b_dest_extra body \<rparr> of
                         (Inl err, st1) \<Rightarrow> (catchResponse 400 err, st1)
                       | (Inr r, st1) \<Rightarrow>
                           (\<lparr> res_status = 200,
                              res_body = [(''type'', JString (rs_type r)), (''id'', JString (rs_id r)),
                                          (''url'', JString (rs_url r))] \<rparr>, st1)))))"

text \<open>\<open>POST /interactive/complete\<close>, which is not behind the guard.\<close>

definition postInteractiveComplete ::
  "int \<Rightarrow> int \<Rightarrow> InMemoryTransferStore \<Rightarrow> string option \<Rightarrow> string option
    \<Rightarrow> response \<times> InMemoryTransferStore" where
  "postInteractiveComplete nowV nowU st transaction_id tokenParam =
     (if \<not> truthy transaction_id \<or> \<not> truthy tokenParam then
        (catchResponse 400 (Sep (badRequest ''Missing transaction_id or token'')), st)
      else
        (case completeInteractive nowV nowU st (the transaction_id) (the tokenParam) of
           (Inl err, st1) \<Rightarrow> (catchResponse 400 err, st1)
         | (Inr transfer, st1) \<Rightarrow>
             (\<lparr> res_status = 200,
                res_body = [(''success'', JBool True),
                            (''status'', JString (statusString (status transfer))),
                            (''message'', JString ''Interactive flow completed successfully'')] \<rparr>,
              st1)))"

text \<open>
  The property read \<open>assets[asset_code]\<close> on the configured object, an
  ordinary object: an own key gives its asset configuration; otherwise the
  read goes to \<open>Object.prototype\<close>, whose members are functions (and, for
  \<open>__proto__\<close>, the prototype itself), all truthy and none with a
  \<open>deposit\<close> or \<open>withdraw\<close> property; any other key gives \<open>undefined\<close>.
\<close>

datatype 'a propertyRead = OwnValue 'a | Inherited | Undefined

definition objectPrototypeMembers :: "string list" where
  "objectPrototypeMembers =
     [''constructor'', ''__defineGetter__'', ''__defineSetter__'', ''hasOwnProperty'',
      ''__lookupGetter__'', ''__lookupSetter__'', ''isPrototypeOf'', ''propertyIsEnumerable'',
      ''toString'', ''valueOf'', ''__proto__'', ''toLocaleString'']"

definition readProperty :: "(string \<times> 'a) list \<Rightarrow> string \<Rightarrow> 'a propertyRead" where
  "readProperty obj k =
     (case map_of obj k of
        Some v \<Rightarrow> OwnValue v
      | None \<Rightarrow> if k \<in> set objectPrototypeMembers then Inherited else Undefined)"

text \<open>
  The checks with which \<open>GET /sep6/deposit\<close> and \<open>GET /sep6/withdraw\<close>
  begin, up to the creation of the transfer: the thrown error, or the account
  and the asset's configuration. What follows in the handlers (the record,
  the hook, the reply) is not modelled.
\<close>

definition sep6DepositChecks ::
  "AnchorServerConfig \<Rightarrow> JwtPayload \<Rightarrow> string option \<Rightarrow> thrown + string \<times> AssetConfig" where
  "sep6DepositChecks cfg user asset_code =
     (if \<not> truthy (sub user) then Inl (Sep (badRequest ''account is required''))
      else if \<not> truthy asset_code then Inl (Sep (badRequest ''asset_code is required''))
      else (case readProperty (assets cfg) (the asset_code) of
              Undefined \<Rightarrow>
                Inl (Sep (badRequest (''Asset '' @ the asset_code @ '' is not supported'')))
            | Inherited \<Rightarrow>
                Inl (Sep (badRequest (''Deposits are not enabled for '' @ the asset_code)))
            | OwnValue assetConfig \<Rightarrow>
                if \<not> (case deposit assetConfig of None \<Rightarrow> False | Some d \<Rightarrow> enabled d) then
                  Inl (Sep (badRequest (''Deposits are not enabled for '' @ the asset_code)))
                else Inr (the (sub user), assetConfig)))"



section \<open>The discovery publisher (toml/publisher.ts)\<close>

text \<open>
  The fields of \<open>TomlStructure\<close> that \<open>buildFromServer\<close> can set. It never
  sets \<open>VERSION\<close>, \<open>ACCOUNTS\<close>, \<open>PRINCIPALS\<close> or a custom key, so the
  branches of \<open>stringifyToml\<close> for them never run and are left out.
  \<open>DOCUMENTATION\<close> is the object of \<open>mapMetaToDocumentation\<close>, in key
  order.
\<close>

record TomlStructure =
  SIGNING_KEY :: string
  NETWORK_PASSPHRASE :: string
  WEB_AUTH_ENDPOINT :: "string option"
  TRANSFER_SERVER_SEP0024 :: "string option"
  TRANSFER_SERVER :: "string option"
  DOCUMENTATION :: "(string \<times> string option) list option"

record CurrencyInfo =
  cur_code :: string
  cur_issuer :: "string option"
  cur_status :: AssetStatus
  cur_display_decimals :: "int option"
  cur_name :: string
  cur_desc :: string
  cur_is_asset_anchored :: bool
  cur_anchor_asset_type :: string

record TomlPublisher =
  cachedToml :: "string option"

definition newPublisher :: TomlPublisher where
  "newPublisher = \<lparr> cachedToml = None \<rparr>"

definition getProtocol :: "string \<Rightarrow> string" where
  "getProtocol d = (if d = ''localhost'' \<or> prefix ''localhost:'' d then ''http'' else ''https'')"

definition buildSepUrl :: "string \<Rightarrow> string \<Rightarrow> string" where
  "buildSepUrl d path = (let protocol = getProtocol d in protocol @ ''://'' @ d @ path)"

definition mapMetaToDocumentation :: "AnchorMeta \<Rightarrow> (string \<times> string option) list" where
  "mapMetaToDocumentation m =
     [(''org_name'', orgName m),
      (''org_url'', orgUrl m),
      (''org_description'', orgDescription m),
      (''org_logo'', orgLogo m),
      (''org_physical_address'', orgPhysicalAddress m),
      (''org_official_email'', orgOfficialEmail m),
      (''org_support_email'', orgSupportEmail m)]"

definition buildFromServer :: "AnchorServer \<Rightarrow> TomlStructure" where
  "buildFromServer server =
     \<lparr> SIGNING_KEY = publicKey server,
       NETWORK_PASSPHRASE = networkPassphrase server,
       WEB_AUTH_ENDPOINT =
         (if sep10 \<in> mountedModules server
          then Some (buildSepUrl (domain (config server)) ''/auth'') else None),
       TRANSFER_SERVER_SEP0024 =
         (if sep24 \<in> mountedModules server
          then Some (buildSepUrl (domain (config server)) ''/sep24'') else None),
       TRANSFER_SERVER =
         (if sep6 \<in> mountedModules server
          then Some (buildSepUrl (domain (config server)) ''/sep6'') else None),
       DOCUMENTATION = map_option mapMetaToDocumentation (meta (config server)) \<rparr>"

definition assetToCurrency :: "AssetStatus \<Rightarrow> string \<times> AssetConfig \<Rightarrow> CurrencyInfo" where
  "assetToCurrency defaultStatus entry =
     (case entry of (code, asset) \<Rightarrow>
        (let rawStatus = asset_status asset;
             st = (if rawStatus = Some LIVE \<or> rawStatus = Some TEST then the rawStatus
                   else defaultStatus);
             isNative = (code = ''native'' \<or> code = ''XLM'')
         in \<lparr> cur_code = (if isNative then ''native'' else code),
              cur_issuer = issuer asset,
              cur_status = st,
              cur_display_decimals = displayDecimals asset,
              cur_name = (if truthy (asset_name asset) then the (asset_name asset) else code),
              cur_desc = (if truthy (desc asset) then the (desc asset) else code),
              cur_is_asset_anchored = False,
              cur_anchor_asset_type = (if isNative then ''crypto'' else ''crypto'') \<rparr>))"

definition mapAssetsToCurrencies :: "AnchorServer \<Rightarrow> CurrencyInfo list" where
  "mapAssetsToCurrencies server =
     (let n = network (config server);
          isTestnet = (n = TESTNET \<or> n = FUTURENET \<or> n = STANDALONE);
          defaultStatus = (if isTestnet then TEST else LIVE)
      in map (assetToCurrency defaultStatus) (assets (config server)))"

text \<open>\<open>str.replace(/c/g, r)\<close> for a single character \<open>c\<close>.\<close>

definition replaceChar :: "char \<Rightarrow> string \<Rightarrow> string \<Rightarrow> string" where
  "replaceChar c r str = concat (map (\<lambda>x. if x = c then r else [x]) str)"

definition escapeTomlString :: "string \<Rightarrow> string" where
  "escapeTomlString str =
     replaceChar (CHR 0x09) [CHR 0x5C, CHR ''t'']
       (replaceChar (CHR 0x0D) [CHR 0x5C, CHR ''r'']
         (replaceChar (CHR 0x0A) [CHR 0x5C, CHR ''n'']
           (replaceChar (CHR 0x22) [CHR 0x5C, CHR 0x22]
             (replaceChar (CHR 0x5C) [CHR 0x5C, CHR 0x5C] str))))"

datatype tomlValue = TString string | TNumber int | TBool bool

definition toTomlKeyValue :: "string \<Rightarrow> tomlValue \<Rightarrow> string" where
  "toTomlKeyValue k v =
     (case v of
        TString x \<Rightarrow> k @ '' = '' @ [CHR 0x22] @ escapeTomlString x @ [CHR 0x22]
      | TNumber n \<Rightarrow> k @ '' = '' @ showInt n
      | TBool b \<Rightarrow> k @ '' = '' @ (if b then ''true'' else ''false''))"

definition statusWord :: "AssetStatus \<Rightarrow> string" where
  "statusWord x = (case x of LIVE \<Rightarrow> ''live'' | TEST \<Rightarrow> ''test'' | DEAD \<Rightarrow> ''dead''
                    | PRIVATE \<Rightarrow> ''private'')"

text \<open>
  \<open>appendCurrencyFields\<close>: the fields of \<open>fieldOrder\<close> that
  \<open>mapAssetsToCurrencies\<close> defines, in that order.
\<close>

definition currencyFields :: "CurrencyInfo \<Rightarrow> string list" where
  "currencyFields c =
     [toTomlKeyValue ''code'' (TString (cur_code c))]
     @ (case cur_issuer c of None \<Rightarrow> [] | Some i \<Rightarrow> [toTomlKeyValue ''issuer'' (TString i)])
     @ [toTomlKeyValue ''status'' (TString (statusWord (cur_status c)))]
     @ (case cur_display_decimals c of
          None \<Rightarrow> [] | Some n \<Rightarrow> [toTomlKeyValue ''display_decimals'' (TNumber n)])
     @ [toTomlKeyValue ''name'' (TString (cur_name c)),
        toTomlKeyValue ''desc'' (TString (cur_desc c)),
        toTomlKeyValue ''is_asset_anchored'' (TBool (cur_is_asset_anchored c)),
        toTomlKeyValue ''anchor_asset_type'' (TString (cur_anchor_asset_type c))]"

text \<open>The array \<open>lines\<close> that \<open>stringifyToml\<close> fills.\<close>

definition tomlLines :: "AnchorServer \<Rightarrow> TomlStructure \<Rightarrow> string list" where
  "tomlLines server structure =
     [toTomlKeyValue ''SIGNING_KEY'' (TString (SIGNING_KEY structure)),
      toTomlKeyValue ''NETWORK_PASSPHRASE'' (TString (NETWORK_PASSPHRASE structure))]
     @ (if truthy (WEB_AUTH_ENDPOINT structure)
        then [[], toTomlKeyValue ''WEB_AUTH_ENDPOINT''
                     (TString (the (WEB_AUTH_ENDPOINT structure)))]
        else [])
     @ (if truthy (TRANSFER_SERVER_SEP0024 structure)
        then [toTomlKeyValue ''TRANSFER_SERVER_SEP0024''
                (TString (the (TRANSFER_SERVER_SEP0024 structure)))]
        else [])
     @ (if truthy (TRANSFER_SERVER structure)
        then [toTomlKeyValue ''TRANSFER_SERVER'' (TString (the (TRANSFER_SERVER structure)))]
        else [])
     @ (case DOCUMENTATION structure of
          None \<Rightarrow> []
        | Some d \<Rightarrow>
            [[], ''[DOCUMENTATION]'']
            @ concat (map (\<lambda>(k, v). case v of
                                       None \<Rightarrow> []
                                     | Some x \<Rightarrow> [toTomlKeyValue k (TString x)]) d))
     @ concat (map (\<lambda>c. [[], ''[[CURRENCIES]]''] @ currencyFields c)
                (mapAssetsToCurrencies server))"

text \<open>
  \<open>lines\<close> in two parts: the lines up to the endpoint keys, and the lines of
  the tables that follow (\<open>[DOCUMENTATION]\<close>, \<open>[[CURRENCIES]]\<close>).
\<close>

definition headerLines :: "TomlStructure \<Rightarrow> string list" where
  "headerLines structure =
     [toTomlKeyValue ''SIGNING_KEY'' (TString (SIGNING_KEY structure)),
      toTomlKeyValue ''NETWORK_PASSPHRASE'' (TString (NETWORK_PASSPHRASE structure))]
     @ (if truthy (WEB_AUTH_ENDPOINT structure)
        then [[], toTomlKeyValue ''WEB_AUTH_ENDPOINT''
                     (TString (the (WEB_AUTH_ENDPOINT structure)))]
        else [])
     @ (if truthy (TRANSFER_SERVER_SEP0024 structure)
        then [toTomlKeyValue ''TRANSFER_SERVER_SEP0024''
                (TString (the (TRANSFER_SERVER_SEP0024 structure)))]
        else [])
     @ (if truthy (TRANSFER_SERVER structure)
        then [toTomlKeyValue ''TRANSFER_SERVER'' (TString (the (TRANSFER_SERVER structure)))]
        else [])"

definition sectionLines :: "AnchorServer \<Rightarrow> TomlStructure \<Rightarrow> string list" where
  "sectionLines server structure =
     (case DOCUMENTATION structure of
          None \<Rightarrow> []
        | Some d \<Rightarrow>
            [[], ''[DOCUMENTATION]'']
            @ concat (map (\<lambda>(k, v). case v of
                                       None \<Rightarrow> []
                                     | Some x \<Rightarrow> [toTomlKeyValue k (TString x)]) d))
     @ concat (map (\<lambda>c. [[], ''[[CURRENCIES]]''] @ currencyFields c)
                (mapAssetsToCurrencies server))"

text \<open>\<open>lines.join(sep)\<close>.\<close>

fun joinWith :: "string \<Rightarrow> string list \<Rightarrow> string" where
  "joinWith sep [] = []"
| "joinWith sep [x] = x"
| "joinWith sep (x # y # ys) = x @ sep @ joinWith sep (y # ys)"

definition stringifyToml :: "AnchorServer \<Rightarrow> TomlStructure \<Rightarrow> string" where
  "stringifyToml server structure =
     joinWith [CHR 0x0A] (tomlLines server structure) @ [CHR 0x0A]"

text \<open>
  \<open>render()\<close>: the document and the publisher after the call. The publisher
  reads the server it was built for at the time of the call.
  \<open>if (this.cachedToml)\<close> is false for \<open>null\<close> and for the empty string.
\<close>

definition render :: "AnchorServer \<Rightarrow> TomlPublisher \<Rightarrow> string \<times> TomlPublisher" where
  "render server pub =
     (if truthy (cachedToml pub) then (the (cachedToml pub), pub)
      else (let structure = buildFromServer server;
                doc = stringifyToml server structure
            in (doc, pub\<lparr> cachedToml := Some doc \<rparr>)))"

definition invalidateCache :: "TomlPublisher \<Rightarrow> TomlPublisher" where
  "invalidateCache pub = pub\<lparr> cachedToml := None \<rparr>"

text \<open>
  \<open>GET /.well-known/stellar.toml\<close> (\<open>AnchorServer.toml()\<close>). Its replies
  are sent with \<open>send\<close>, as text. The \<open>try\<close> block renders with the
  route's publisher; in this model \<open>render\<close> does not throw. The \<open>catch\<close>
  block is modelled on its own: it takes \<open>error.message\<close> when the thrown
  value is an \<open>Error\<close>, here \<open>Some\<close> of the message, and
  \<open>'Unknown error'\<close> otherwise.
\<close>

record textResponse =
  tr_status :: int
  tr_contentType :: "string option"
  tr_allowOrigin :: "string option"
  tr_text :: string

definition getStellarToml :: "AnchorServer \<Rightarrow> TomlPublisher \<Rightarrow> textResponse \<times> TomlPublisher" where
  "getStellarToml server pub =
     (case render server pub of
        (tomlContent, pub1) \<Rightarrow>
          (\<lparr> tr_status = 200, tr_contentType = Some ''text/plain; charset=utf-8'',
             tr_allowOrigin = Some ''*'', tr_text = tomlContent \<rparr>, pub1))"

definition tomlCatchResponse :: "string option \<Rightarrow> textResponse" where
  "tomlCatchResponse errorInstanceMessage =
     (let errorMessage = (case errorInstanceMessage of Some m \<Rightarrow> m | None \<Rightarrow> ''Unknown error'')
      in \<lparr> tr_status = 500, tr_contentType = None, tr_allowOrigin = None,
           tr_text = ''Error generating TOML: '' @ errorMessage \<rparr>)"

subsection \<open>Reading a key off a discovery document\<close>

text \<open>
  What "the key is present in the document" means, in the specification's
  sense of a document that a TOML parser reads: among the lines before the
  first table header, one begins with the key followed by \<open>" = "\<close>.
\<close>

definition topLevelLines :: "string \<Rightarrow> string list" where
  "topLevelLines doc = takeWhile (\<lambda>l. \<not> prefix ''['' l) (splitOn (CHR 0x0A) doc)"

definition hasKey :: "string \<Rightarrow> string \<Rightarrow> bool" where
  "hasKey k doc \<longleftrightarrow> (\<exists>l \<in> set (topLevelLines doc). prefix (k @ '' = '') l)"

definition endpointKey :: "MountedModule \<Rightarrow> string" where
  "endpointKey m = (case m of sep10 \<Rightarrow> ''WEB_AUTH_ENDPOINT''
                     | sep24 \<Rightarrow> ''TRANSFER_SERVER_SEP0024''
                     | sep6 \<Rightarrow> ''TRANSFER_SERVER'')"

section \<open>Sample data for the worked examples\<close>

definition sampleTransfer :: "string \<Rightarrow> TransferKind \<Rightarrow> string \<Rightarrow> string \<Rightarrow> int \<Rightarrow> Transfer" where
  "sampleTransfer i k code acct created =
     \<lparr> transfer_id = i, kind = k, mode = Interactive, status = INCOMPLETE,
       assetCode = code, assetIssuer = None, account = acct, amount = None,
       interactiveToken = None, interactiveUrl = None, more_info_url = None,
       externalTransactionId = None, stellarTransactionId = None, message = None,
       createdAt = created, updatedAt = created, completedAt = None, metadata = None \<rparr>"

definition sampleStore :: InMemoryTransferStore where
  "sampleStore =
     create (create (create emptyStore
       (sampleTransfer ''t1'' Deposit ''USDC'' ''GA'' 100))
       (sampleTransfer ''t2'' Deposit ''BTC'' ''GA'' 200))
       (sampleTransfer ''t3'' Withdrawal ''USDC'' ''GA'' 300)"

definition sampleOptions :: FindByAccountOptions where
  "sampleOptions = \<lparr> o_assetCode = Some ''USDC'', o_kind = None, o_noOlderThan = None,
                     o_limit = Some 1 \<rparr>"

definition sampleToken :: InteractiveToken where
  "sampleToken = \<lparr> token = ''tok1'', tokenCreatedAt = 100, expiresAt = 900100, used = False \<rparr>"

definition tokenDeposit :: Transfer where
  "tokenDeposit = (sampleTransfer ''t1'' Deposit ''USDC'' ''GA'' 100)
                    \<lparr> interactiveToken := Some sampleToken \<rparr>"

definition tokenStore :: InMemoryTransferStore where
  "tokenStore = create emptyStore tokenDeposit"

definition sampleAsset :: AssetConfig where
  "sampleAsset =
     \<lparr> issuer = None, asset_name = None, desc = None, displayDecimals = None,
       asset_status = None,
       deposit = Some \<lparr> enabled = True, minAmount = None, maxAmount = None,
                        feeFixed = None, feePercent = None \<rparr>,
       withdraw = Some \<lparr> enabled = True, minAmount = None, maxAmount = None,
                         feeFixed = None, feePercent = None \<rparr> \<rparr>"

definition sampleConfig :: AnchorServerConfig where
  "sampleConfig = \<lparr> domain = ''myanchor.com'', network = TESTNET,
                    assets = [(''USDC'', sampleAsset)], meta = None \<rparr>"

definition sampleUser :: JwtPayload where
  "sampleUser = \<lparr> iss = ''myanchor.com'', sub = Some ''GCLIENT'', iat = 10, exp = 86410 \<rparr>"



definition undefinedCodeError :: SepError where
  "undefinedCodeError = \<lparr> se_message = ''Rejected by the operator'', se_code = ''rejected'',
                          se_status = 400, se_details = Some [(''code'', JUndefined)] \<rparr>"

definition detailedError :: SepError where
  "detailedError = \<lparr> se_message = ''Transaction not found'', se_code = ''not_found'',
                     se_status = 404, se_details = Some [(''id'', JString ''0a'')] \<rparr>"

definition sampleSdk :: Sdk where
  "sampleSdk =
     \<lparr> buildChallengeTx = (\<lambda>client. Inr ''challenge-xdr''),
       readChallengeTx = (\<lambda>xdr.
          Inr \<lparr> tx = \<lparr> operations = Some [\<lparr> op_type = ''manageData'',
                                              op_value = Some (BufferValue ''bm9uY2U='') \<rparr>] \<rparr>,
                clientAccountID = ''GCLIENT'' \<rparr>),
       loadAccount = (\<lambda>acct. None),
       verifyChallengeTxSigners = (\<lambda>xdr sgs. if xdr = ''signed-xdr'' then Inr sgs
                                     else Inl (Error ''not signed by client'')),
       jwtSign = (\<lambda>payload. ''jwt-for-'' @ the (sub payload)),
       jwtVerify = (\<lambda>t. None) \<rparr>"

definition sampleIssuer :: AuthIssuer where
  "sampleIssuer = \<lparr> ai_domain = ''myanchor.com'',
                    ai_networkPassphrase = ''Test SDF Network ; September 2015'',
                    nonceStore = Map.empty \<rparr>"

definition sampleServer :: AnchorServer where
  "sampleServer = \<lparr> config = sampleConfig, publicKey = ''GSIGNER'', mountedModules = {} \<rparr>"


definition bothMounted :: AnchorServer where
  "bothMounted = (mount_sep10 sampleServer)
                   \<lparr> mountedModules := insert sep24 (mountedModules (mount_sep10 sampleServer)) \<rparr>"

definition challengedIssuer :: AuthIssuer where
  "challengedIssuer = sampleIssuer\<lparr> nonceStore := [''bm9uY2U='' \<mapsto> 1000] \<rparr>"

section \<open>Properties of the store\<close>

text \<open>
  C10. For an id that is not a key of the store, \<open>update\<close> returns
  \<open>null\<close> and the store after the call is the store before it: no transfer
  is added and the token index is the same.
\<close>

theorem update_missing_id_unchanged:
  "getById st i = None \<Longrightarrow> update now st i updates = (None, st)"
  by (simp add: update_def getById_def)

theorem update_missing_id_unchanged_witness:
  "getById emptyStore ''abc'' = None \<and>
   update 5 emptyStore ''abc'' (noUpdates\<lparr> u_status := Some COMPLETED \<rparr>) = (None, emptyStore)"
  using update_missing_id_unchanged [of emptyStore "''abc''" 5 "noUpdates\<lparr> u_status := Some COMPLETED \<rparr>"]
  by (simp add: getById_def emptyStore_def)

subsection \<open>Listing by account\<close>

lemma newestFirst_sort: "newestFirst (sort_key (\<lambda>t. - createdAt t) ts)"
proof -
  have "sorted (map (\<lambda>t. - createdAt t) (sort_key (\<lambda>t. - createdAt t) ts))"
    by (rule sorted_sort_key)
  then show ?thesis
    by (simp add: newestFirst_def sorted_map sorted_wrt_iff_nth_less)
qed

lemma newestFirst_take: "newestFirst ts \<Longrightarrow> newestFirst (take n ts)"
  by (simp add: newestFirst_def sorted_wrt_take)

lemma listByAccount_unfold:
  "listByAccount st acct options =
     (let r = sort_key (\<lambda>t. - createdAt t)
                (filter (matchesFilters acct options) (map snd (transfers st)))
      in case limitOf options of None \<Rightarrow> r | Some n \<Rightarrow> take n r)"
  unfolding listByAccount_def limitOf_def matchesFilters_def Let_def
  by (cases "optField options o_assetCode"; cases "optField options o_kind";
      cases "optField options o_noOlderThan"; cases "optField options o_limit")
     (simp_all add: conj_ac)

lemma limitOf_withoutLimit: "limitOf (withoutLimit options) = None"
  by (cases options) (simp_all add: limitOf_def withoutLimit_def optField_def)

lemma matchesFilters_withoutLimit:
  "matchesFilters acct (withoutLimit options) = matchesFilters acct options"
  by (cases options) (simp_all add: matchesFilters_def withoutLimit_def optField_def fun_eq_iff)

text \<open>
  C8. \<open>listByAccount\<close> returns stored transfers newest first. Without a
  limit in force (none given, or one that is zero or negative) the result is,
  as a multiset, exactly the stored transfers of the account that pass the
  asset-code, kind and not-older-than filters, and equals the listing for the
  same options with the limit removed; with a limit \<open>n > 0\<close> the result is
  the first \<open>n\<close> entries of that unlimited listing. An asset-code filter
  that is the empty string counts as not given.
\<close>

theorem listByAccount_sorted_filtered_limited:
  "newestFirst (listByAccount st acct options) \<and>
   (limitOf options = None \<longrightarrow>
      mset (listByAccount st acct options) =
        filter_mset (matchesFilters acct options) (mset (map snd (transfers st)))) \<and>
   (\<forall>n. limitOf options = Some n \<longrightarrow>
      listByAccount st acct options = take n (listByAccount st acct (withoutLimit options))) \<and>
   (limitOf options = None \<longrightarrow>
      listByAccount st acct options = listByAccount st acct (withoutLimit options))"
proof (cases "limitOf options")
  case None
  then show ?thesis
    by (simp add: listByAccount_unfold limitOf_withoutLimit matchesFilters_withoutLimit
        newestFirst_sort)
next
  case (Some n)
  then show ?thesis
    by (simp add: listByAccount_unfold limitOf_withoutLimit matchesFilters_withoutLimit
        newestFirst_sort newestFirst_take)
qed

lemma sampleStore_transfers:
  "transfers sampleStore =
     [(''t1'', sampleTransfer ''t1'' Deposit ''USDC'' ''GA'' 100),
      (''t2'', sampleTransfer ''t2'' Deposit ''BTC'' ''GA'' 200),
      (''t3'', sampleTransfer ''t3'' Withdrawal ''USDC'' ''GA'' 300)]"
  by (simp add: sampleStore_def create_def emptyStore_def sampleTransfer_def)

theorem listByAccount_sorted_filtered_limited_witness:
  "limitOf (Some sampleOptions) = Some 1 \<and>
   listByAccount sampleStore ''GA'' (Some sampleOptions) =
     [sampleTransfer ''t3'' Withdrawal ''USDC'' ''GA'' 300] \<and>
   listByAccount sampleStore ''GA'' (withoutLimit (Some sampleOptions)) =
     [sampleTransfer ''t3'' Withdrawal ''USDC'' ''GA'' 300,
      sampleTransfer ''t1'' Deposit ''USDC'' ''GA'' 100] \<and>
   listByAccount sampleStore ''GA'' (Some (sampleOptions\<lparr> o_limit := Some (- 2) \<rparr>)) =
     listByAccount sampleStore ''GA'' (withoutLimit (Some sampleOptions))"
proof -
  have l: "limitOf (Some sampleOptions) = Some 1"
    by (simp add: limitOf_def optField_def sampleOptions_def)
  have l2: "limitOf (Some (sampleOptions\<lparr> o_limit := Some (- 2) \<rparr>)) = None"
    by (simp add: limitOf_def optField_def sampleOptions_def)
  have w: "withoutLimit (Some (sampleOptions\<lparr> o_limit := Some (- 2) \<rparr>)) = withoutLimit (Some sampleOptions)"
    by (simp add: withoutLimit_def)
  have u: "listByAccount sampleStore ''GA'' (withoutLimit (Some sampleOptions)) =
     [sampleTransfer ''t3'' Withdrawal ''USDC'' ''GA'' 300,
      sampleTransfer ''t1'' Deposit ''USDC'' ''GA'' 100]"
    by (simp add: listByAccount_def withoutLimit_def optField_def sampleOptions_def
        sampleStore_transfers sampleTransfer_def)
  from listByAccount_sorted_filtered_limited [of sampleStore "''GA''" "Some sampleOptions"] l
  have "listByAccount sampleStore ''GA'' (Some sampleOptions) =
        take 1 (listByAccount sampleStore ''GA'' (withoutLimit (Some sampleOptions)))"
    by blast
  moreover
  from listByAccount_sorted_filtered_limited
         [of sampleStore "''GA''" "Some (sampleOptions\<lparr> o_limit := Some (- 2) \<rparr>)"] l2 w
  have "listByAccount sampleStore ''GA'' (Some (sampleOptions\<lparr> o_limit := Some (- 2) \<rparr>)) =
     listByAccount sampleStore ''GA'' (withoutLimit (Some sampleOptions))"
    by simp
  ultimately show ?thesis using l u by simp
qed

subsection \<open>Completing the interactive flow\<close>

lemma validate_Inr:
  "validateInteractiveToken now st i tok = Inr t0 \<Longrightarrow>
     map_of (transfers st) i = Some t0 \<and>
     (\<exists>it. interactiveToken t0 = Some it \<and> token it = tok \<and> \<not> used it \<and> \<not> expiresAt it < now)"
  by (auto simp: validateInteractiveToken_def getById_def split: option.splits if_splits)

lemma map_of_update_same: "map_of (AList.update k v al) k = Some v"
  by (simp add: update_conv')

lemma completeInteractive_result:
  assumes "map_of (transfers st) i = Some t0"
    and "interactiveToken t0 = Some it" and "token it = tok" and "\<not> used it"
    and "\<not> expiresAt it < nowV"
  shows "completeInteractive nowV nowU st i tok =
     (Inr (t0\<lparr> status := getNextStatus t0,
               interactiveToken := Some (it\<lparr> used := True \<rparr>),
               transfer_id := i, updatedAt := nowU \<rparr>),
      st\<lparr> transfers := AList.update i
             (t0\<lparr> status := getNextStatus t0,
               interactiveToken := Some (it\<lparr> used := True \<rparr>),
               transfer_id := i, updatedAt := nowU \<rparr>)
             (transfers st),
          tokenIndex := (tokenIndex st)(tok \<mapsto> i) \<rparr>)"
proof -
  have v: "validateInteractiveToken nowV st i tok = Inr t0"
    using assms by (simp add: validateInteractiveToken_def getById_def)
  have m: "markUsedInStore st i =
      st\<lparr> transfers := AList.update i (t0\<lparr> interactiveToken := Some (it\<lparr> used := True \<rparr>) \<rparr>) (transfers st) \<rparr>"
    using assms by (simp add: markUsedInStore_def)
  have sp: "spreadTransfer (t0\<lparr> interactiveToken := Some (it\<lparr> used := True \<rparr>) \<rparr>)
              (noUpdates\<lparr> u_status := Some (getNextStatus t0),
                          u_interactiveToken := Some (Some (it\<lparr> used := True \<rparr>)) \<rparr>)
            = t0\<lparr> status := getNextStatus t0, interactiveToken := Some (it\<lparr> used := True \<rparr>) \<rparr>"
    by (simp add: spreadTransfer_def noUpdates_def spreadKey_def)
  have g: "getNextStatus (t0\<lparr> interactiveToken := Some (it\<lparr> used := True \<rparr>) \<rparr>) = getNextStatus t0"
    by (simp add: getNextStatus_def)
  show ?thesis
    unfolding completeInteractive_def v
    using assms(2,3)
    by (simp add: m update_def map_of_update_same sp g Let_def)
qed

text \<open>
  C2. When \<open>(id, token)\<close> is valid for the store (the transfer exists, the
  token is its token, unused and not expired), \<open>completeInteractive\<close>
  succeeds, and the stored transfer then has status
  \<open>pending_user_transfer_start\<close> if it was a deposit in \<open>incomplete\<close>,
  \<open>pending_anchor\<close> if it was a withdrawal in \<open>incomplete\<close>, and its
  former status otherwise; in every case its token is marked used.
\<close>

theorem completeInteractive_transition:
  assumes "validateInteractiveToken nowV st i tok = Inr t0"
  shows "\<exists>u st' it. completeInteractive nowV nowU st i tok = (Inr u, st') \<and>
           getById st' i = Some u \<and>
           kind u = kind t0 \<and>
           status u = (if status t0 = INCOMPLETE
                       then (if kind t0 = Deposit then PENDING_USER_TRANSFER_START
                             else PENDING_ANCHOR)
                       else status t0) \<and>
           interactiveToken u = Some it \<and> token it = tok \<and> used it"
proof -
  from validate_Inr [OF assms] obtain it where
    a: "map_of (transfers st) i = Some t0" "interactiveToken t0 = Some it" "token it = tok"
       "\<not> used it" "\<not> expiresAt it < nowV"
    by blast
  show ?thesis
    unfolding completeInteractive_result [OF a]
    using a(3) by (simp add: getById_def map_of_update_same getNextStatus_def)
qed

lemma tokenStore_transfers: "transfers tokenStore = [(''t1'', tokenDeposit)]"
  by (simp add: tokenStore_def create_def emptyStore_def tokenDeposit_def sampleTransfer_def
      sampleToken_def)

lemma tokenStore_validate:
  "validateInteractiveToken 500 tokenStore ''t1'' ''tok1'' = Inr tokenDeposit"
  by (simp add: validateInteractiveToken_def getById_def tokenStore_transfers)
     (simp add: tokenDeposit_def sampleToken_def)

theorem completeInteractive_transition_witness:
  "validateInteractiveToken 500 tokenStore ''t1'' ''tok1'' = Inr tokenDeposit \<and>
   (\<exists>u st' it. completeInteractive 500 600 tokenStore ''t1'' ''tok1'' = (Inr u, st') \<and>
      getById st' ''t1'' = Some u \<and> kind u = Deposit \<and>
      status u = PENDING_USER_TRANSFER_START \<and>
      interactiveToken u = Some it \<and> token it = ''tok1'' \<and> used it)"
  using completeInteractive_transition [OF tokenStore_validate, of 600] tokenStore_validate
  by (simp add: tokenDeposit_def sampleTransfer_def)

text \<open>
  C3 (as amended). After a successful \<open>completeInteractive(id, tok)\<close>, a
  second call with the same pair fails, at any later time: the service throws
  \<open>Error('Token already used')\<close> and the store stays as it is. The route
  \<open>POST /interactive/complete\<close> reports it with status 400 and the envelope
  code \<open>error\<close>, not \<open>bad_request\<close>.
\<close>

theorem completeInteractive_second_call_fails:
  assumes "completeInteractive nowV nowU st i tok = (Inr u, st')"
  shows "completeInteractive nowV' nowU' st' i tok = (Inl (Error ''Token already used''), st') \<and>
         (i \<noteq> [] \<and> tok \<noteq> [] \<longrightarrow>
            postInteractiveComplete nowV' nowU' st' (Some i) (Some tok) =
              (\<lparr> res_status = 400,
                 res_body = [(''error'', JString ''Token already used''),
                             (''code'', JString ''error'')] \<rparr>, st'))"
proof -
  obtain t0 where v: "validateInteractiveToken nowV st i tok = Inr t0"
    using assms by (cases "validateInteractiveToken nowV st i tok")
      (auto simp: completeInteractive_def)
  from validate_Inr [OF v] obtain it where
    a: "map_of (transfers st) i = Some t0" "interactiveToken t0 = Some it" "token it = tok"
       "\<not> used it" "\<not> expiresAt it < nowV"
    by blast
  from assms [unfolded completeInteractive_result [OF a]]
  have st': "st' = st\<lparr> transfers := AList.update i
             (t0\<lparr> status := getNextStatus t0,
               interactiveToken := Some (it\<lparr> used := True \<rparr>),
               transfer_id := i, updatedAt := nowU \<rparr>)
             (transfers st),
          tokenIndex := (tokenIndex st)(tok \<mapsto> i) \<rparr>"
    by auto
  have v2: "validateInteractiveToken nowV' st' i tok = Inl (Error ''Token already used'')"
    using a(3) by (simp add: st' validateInteractiveToken_def getById_def map_of_update_same)
  have c2: "completeInteractive nowV' nowU' st' i tok = (Inl (Error ''Token already used''), st')"
    by (simp add: completeInteractive_def v2)
  show ?thesis
    by (simp add: c2 postInteractiveComplete_def truthy_def catchResponse_def Error_def
        toJSON_def spreadObject_def)
qed

lemma tokenStore_first_call:
  "\<exists>u st'. completeInteractive 500 600 tokenStore ''t1'' ''tok1'' = (Inr u, st')"
  using completeInteractive_result [of tokenStore "''t1''" tokenDeposit sampleToken "''tok1''" 500 600]
  by (simp add: tokenStore_transfers) (simp add: tokenDeposit_def sampleToken_def)

theorem completeInteractive_second_call_fails_witness:
  "\<exists>u st'. completeInteractive 500 600 tokenStore ''t1'' ''tok1'' = (Inr u, st') \<and>
     completeInteractive 700 800 st' ''t1'' ''tok1'' = (Inl (Error ''Token already used''), st') \<and>
     postInteractiveComplete 700 800 st' (Some ''t1'') (Some ''tok1'') =
       (\<lparr> res_status = 400,
          res_body = [(''error'', JString ''Token already used''),
                      (''code'', JString ''error'')] \<rparr>, st')"
proof -
  from tokenStore_first_call obtain u st' where
    h: "completeInteractive 500 600 tokenStore ''t1'' ''tok1'' = (Inr u, st')" by blast
  from completeInteractive_second_call_fails [OF h, of 700 800] h
  show ?thesis by simp
qed

lemma tokenStore_replay_response:
  "fst (postInteractiveComplete 700 800
          (snd (postInteractiveComplete 500 600 tokenStore (Some ''t1'') (Some ''tok1'')))
          (Some ''t1'') (Some ''tok1'')) =
     \<lparr> res_status = 400,
       res_body = [(''error'', JString ''Token already used''), (''code'', JString ''error'')] \<rparr>"
proof -
  have r: "completeInteractive 500 600 tokenStore ''t1'' ''tok1'' =
     (Inr (tokenDeposit\<lparr> status := getNextStatus tokenDeposit,
               interactiveToken := Some (sampleToken\<lparr> used := True \<rparr>),
               transfer_id := ''t1'', updatedAt := 600 \<rparr>),
      tokenStore\<lparr> transfers := AList.update ''t1''
             (tokenDeposit\<lparr> status := getNextStatus tokenDeposit,
               interactiveToken := Some (sampleToken\<lparr> used := True \<rparr>),
               transfer_id := ''t1'', updatedAt := 600 \<rparr>)
             (transfers tokenStore),
          tokenIndex := (tokenIndex tokenStore)(''tok1'' \<mapsto> ''t1'') \<rparr>)"
    by (rule completeInteractive_result)
       (simp_all add: tokenStore_transfers, simp_all add: tokenDeposit_def sampleToken_def)
  have v: "validateInteractiveToken 700
      (tokenStore\<lparr> transfers := AList.update ''t1''
             (tokenDeposit\<lparr> status := getNextStatus tokenDeposit,
               interactiveToken := Some (sampleToken\<lparr> used := True \<rparr>),
               transfer_id := ''t1'', updatedAt := 600 \<rparr>)
             (transfers tokenStore),
          tokenIndex := (tokenIndex tokenStore)(''tok1'' \<mapsto> ''t1'') \<rparr>) ''t1'' ''tok1''
      = Inl (Error ''Token already used'')"
    by (simp add: validateInteractiveToken_def getById_def map_of_update_same sampleToken_def)
  have c2: "completeInteractive 700 800
      (tokenStore\<lparr> transfers := AList.update ''t1''
             (tokenDeposit\<lparr> status := getNextStatus tokenDeposit,
               interactiveToken := Some (sampleToken\<lparr> used := True \<rparr>),
               transfer_id := ''t1'', updatedAt := 600 \<rparr>)
             (transfers tokenStore),
          tokenIndex := (tokenIndex tokenStore)(''tok1'' \<mapsto> ''t1'') \<rparr>) ''t1'' ''tok1''
      = (Inl (Error ''Token already used''),
         tokenStore\<lparr> transfers := AList.update ''t1''
             (tokenDeposit\<lparr> status := getNextStatus tokenDeposit,
               interactiveToken := Some (sampleToken\<lparr> used := True \<rparr>),
               transfer_id := ''t1'', updatedAt := 600 \<rparr>)
             (transfers tokenStore),
          tokenIndex := (tokenIndex tokenStore)(''tok1'' \<mapsto> ''t1'') \<rparr>)"
    unfolding completeInteractive_def v by simp
  have p1: "snd (postInteractiveComplete 500 600 tokenStore (Some ''t1'') (Some ''tok1'')) =
      tokenStore\<lparr> transfers := AList.update ''t1''
             (tokenDeposit\<lparr> status := getNextStatus tokenDeposit,
               interactiveToken := Some (sampleToken\<lparr> used := True \<rparr>),
               transfer_id := ''t1'', updatedAt := 600 \<rparr>)
             (transfers tokenStore),
          tokenIndex := (tokenIndex tokenStore)(''tok1'' \<mapsto> ''t1'') \<rparr>"
    by (simp add: postInteractiveComplete_def truthy_def r)
  show ?thesis
    unfolding p1
    by (simp add: postInteractiveComplete_def truthy_def c2
        catchResponse_def Error_def toJSON_def spreadObject_def)
qed

text \<open>
  C3 as stated fails: replaying a used token through the route yields the
  envelope code \<open>error\<close>.
\<close>

theorem replay_code_is_error_counterexample:
  "res_body (fst (postInteractiveComplete 700 800
          (snd (postInteractiveComplete 500 600 tokenStore (Some ''t1'') (Some ''tok1'')))
          (Some ''t1'') (Some ''tok1''))) =
     [(''error'', JString ''Token already used''), (''code'', JString ''error'')] \<and>
   JString ''error'' \<noteq> JString ''bad_request''"
  by (simp add: tokenStore_replay_response)

subsection \<open>Operator status updates\<close>

lemma update_existing:
  assumes "map_of (transfers st) i = Some existing"
  shows "\<exists>st'. update now st i upd =
           (Some ((spreadTransfer existing upd)\<lparr> transfer_id := i, updatedAt := now \<rparr>), st') \<and>
         map_of (transfers st') i =
           Some ((spreadTransfer existing upd)\<lparr> transfer_id := i, updatedAt := now \<rparr>)"
proof (cases "interactiveToken ((spreadTransfer existing upd)\<lparr> transfer_id := i, updatedAt := now \<rparr>)")
  case None
  then show ?thesis
    using assms by (simp add: update_def Let_def map_of_update_same)
next
  case (Some tk)
  show ?thesis
  proof (cases "u_interactiveToken upd")
    case None
    then show ?thesis
      using assms Some by (simp add: update_def Let_def map_of_update_same)
  next
    case outer: (Some x)
    then show ?thesis
      using assms Some by (cases x) (simp_all add: update_def Let_def map_of_update_same)
  qed
qed

lemma status_spreadTransfer:
  "status ((spreadTransfer e upd)\<lparr> transfer_id := i, updatedAt := now \<rparr>) =
     spreadKey (status e) (u_status upd)"
  by (simp add: spreadTransfer_def)

lemma completedAt_spreadTransfer:
  "completedAt ((spreadTransfer e upd)\<lparr> transfer_id := i, updatedAt := now \<rparr>) =
     spreadKey (completedAt e) (u_completedAt upd)"
  by (simp add: spreadTransfer_def)

lemma u_status_spreadUpdates: "u_status (spreadUpdates a b) = spreadOpt (u_status a) (u_status b)"
  by (simp add: spreadUpdates_def)

lemma u_completedAt_spreadUpdates:
  "u_completedAt (spreadUpdates a b) = spreadOpt (u_completedAt a) (u_completedAt b)"
  by (simp add: spreadUpdates_def)

lemma updateStatus_result:
  assumes "map_of (transfers st) i = Some t0"
    and "\<forall>u. updates = Some u \<longrightarrow> u_status u = None \<and> u_completedAt u = None"
  shows "\<exists>u st'. updateStatus nowC nowU st i s updates = (Inr u, st') \<and>
           map_of (transfers st') i = Some u \<and> status u = s \<and>
           completedAt u = (if isTerminalStatus s then Some nowC else None)"
proof -
  define literal where
    "literal = noUpdates\<lparr> u_status := Some s,
        u_completedAt := Some (if isTerminalStatus s then Some nowC else None) \<rparr>"
  define merged where
    "merged = (case updates of None \<Rightarrow> literal | Some u \<Rightarrow> spreadUpdates literal u)"
  have ms: "u_status merged = Some s"
    using assms(2)
    by (cases updates)
       (simp_all add: merged_def literal_def u_status_spreadUpdates spreadOpt_def)
  have mc: "u_completedAt merged = Some (if isTerminalStatus s then Some nowC else None)"
    using assms(2)
    by (cases updates)
       (simp_all add: merged_def literal_def u_completedAt_spreadUpdates spreadOpt_def)
  from update_existing [OF assms(1), of nowU merged] obtain st' where
    u: "update nowU st i merged =
           (Some ((spreadTransfer t0 merged)\<lparr> transfer_id := i, updatedAt := nowU \<rparr>), st')"
    and g: "map_of (transfers st') i =
           Some ((spreadTransfer t0 merged)\<lparr> transfer_id := i, updatedAt := nowU \<rparr>)"
    by blast
  have e: "updateStatus nowC nowU st i s updates =
          (case update nowU st i merged of
             (None, st1) \<Rightarrow> (Inl (Error (''Failed to update transfer '' @ i)), st1)
           | (Some x, st1) \<Rightarrow> (Inr x, st1))"
    unfolding updateStatus_def Let_def getById_def assms(1) merged_def literal_def
    by simp
  have "updateStatus nowC nowU st i s updates =
          (Inr ((spreadTransfer t0 merged)\<lparr> transfer_id := i, updatedAt := nowU \<rparr>), st')"
    unfolding e u by simp
  then show ?thesis
    using g ms mc
    by (simp add: status_spreadTransfer completedAt_spreadTransfer spreadKey_def)
qed

text \<open>
  C4 (as amended). For an existing transfer and extra updates that carry
  neither a \<open>status\<close> nor a \<open>completedAt\<close> key, \<open>updateStatus(id, s)\<close>
  succeeds and leaves the stored transfer with status \<open>s\<close> and with
  \<open>completedAt\<close> set to the current time when \<open>s\<close> is \<open>completed\<close>,
  \<open>error\<close> or \<open>refunded\<close>, and cleared otherwise: \<open>completedAt\<close> is
  set exactly when the status is terminal.
\<close>

theorem updateStatus_sets_status_and_completedAt:
  assumes "getById st i = Some t0"
    and "\<forall>u. updates = Some u \<longrightarrow> u_status u = None \<and> u_completedAt u = None"
  shows "\<exists>u st'. updateStatus nowC nowU st i s updates = (Inr u, st') \<and>
           getById st' i = Some u \<and> status u = s \<and>
           completedAt u = (if s \<in> {COMPLETED, ERROR, REFUNDED} then Some nowC else None) \<and>
           (completedAt u \<noteq> None \<longleftrightarrow> s \<in> {COMPLETED, ERROR, REFUNDED})"
proof -
  from updateStatus_result [OF assms [unfolded getById_def], of nowC nowU s]
  obtain u st' where
    "updateStatus nowC nowU st i s updates = (Inr u, st')"
    "map_of (transfers st') i = Some u" "status u = s"
    "completedAt u = (if isTerminalStatus s then Some nowC else None)"
    by blast
  then show ?thesis
    by (auto simp: getById_def isTerminalStatus_def)
qed

theorem updateStatus_sets_status_and_completedAt_witness:
  "getById tokenStore ''t1'' = Some tokenDeposit \<and>
   (\<exists>u st'. updateStatus 5 6 tokenStore ''t1'' REFUNDED
                (Some (noUpdates\<lparr> u_message := Some (Some ''refunded'') \<rparr>)) = (Inr u, st') \<and>
      getById st' ''t1'' = Some u \<and> status u = REFUNDED \<and> completedAt u = Some 5)"
proof -
  have g: "getById tokenStore ''t1'' = Some tokenDeposit"
    by (simp add: getById_def tokenStore_transfers)
  have n: "\<forall>u. Some (noUpdates\<lparr> u_message := Some (Some ''refunded'') \<rparr>) = Some u \<longrightarrow>
             u_status u = None \<and> u_completedAt u = None"
    by (auto simp: noUpdates_def)
  from updateStatus_sets_status_and_completedAt [OF g n, of 5 6 REFUNDED] g
  show ?thesis by auto
qed

text \<open>
  C4 as stated fails: extra updates with a \<open>status\<close> key and no
  \<open>completedAt\<close> key override the status argument, and the transfer ends
  terminal with \<open>completedAt\<close> cleared.
\<close>

theorem updateStatus_status_override_counterexample:
  "\<not> isl (fst (updateStatus 5 6 tokenStore ''t1'' PENDING_ANCHOR
                   (Some (noUpdates\<lparr> u_status := Some COMPLETED \<rparr>)))) \<and>
   map_option status
     (getById (snd (updateStatus 5 6 tokenStore ''t1'' PENDING_ANCHOR
                      (Some (noUpdates\<lparr> u_status := Some COMPLETED \<rparr>)))) ''t1'') =
     Some COMPLETED \<and>
   map_option completedAt
     (getById (snd (updateStatus 5 6 tokenStore ''t1'' PENDING_ANCHOR
                      (Some (noUpdates\<lparr> u_status := Some COMPLETED \<rparr>)))) ''t1'') =
     Some None"
proof -
  define merged where
    "merged = spreadUpdates (noUpdates\<lparr> u_status := Some PENDING_ANCHOR,
                 u_completedAt := Some None \<rparr>) (noUpdates\<lparr> u_status := Some COMPLETED \<rparr>)"
  have ms: "u_status merged = Some COMPLETED"
    by (simp add: merged_def u_status_spreadUpdates spreadOpt_def)
  have mc: "u_completedAt merged = Some None"
    by (simp add: merged_def u_completedAt_spreadUpdates spreadOpt_def noUpdates_def)
  have t: "map_of (transfers tokenStore) ''t1'' = Some tokenDeposit"
    by (simp add: tokenStore_transfers)
  from update_existing [OF t, of 6 merged] obtain st' where
    u: "update 6 tokenStore ''t1'' merged =
           (Some ((spreadTransfer tokenDeposit merged)\<lparr> transfer_id := ''t1'', updatedAt := 6 \<rparr>), st')"
    and g: "map_of (transfers st') ''t1'' =
           Some ((spreadTransfer tokenDeposit merged)\<lparr> transfer_id := ''t1'', updatedAt := 6 \<rparr>)"
    by blast
  have e: "updateStatus 5 6 tokenStore ''t1'' PENDING_ANCHOR
           (Some (noUpdates\<lparr> u_status := Some COMPLETED \<rparr>)) =
          (case update 6 tokenStore ''t1'' merged of
             (None, st1) \<Rightarrow> (Inl (Error (''Failed to update transfer '' @ ''t1'')), st1)
           | (Some x, st1) \<Rightarrow> (Inr x, st1))"
    unfolding updateStatus_def Let_def getById_def t merged_def
    by (simp add: isTerminalStatus_def)
  have "updateStatus 5 6 tokenStore ''t1'' PENDING_ANCHOR
           (Some (noUpdates\<lparr> u_status := Some COMPLETED \<rparr>)) =
          (Inr ((spreadTransfer tokenDeposit merged)\<lparr> transfer_id := ''t1'', updatedAt := 6 \<rparr>), st')"
    unfolding e u by simp
  then show ?thesis
    using g ms mc
    by (simp add: status_spreadTransfer completedAt_spreadTransfer spreadKey_def getById_def)
qed

subsection \<open>Asset validation at initiation\<close>



















text \<open>
  Two more facts about the SEP-6 lookup, on which the amended claim is silent:
  it reads \<open>assets[asset_code]\<close> as written, so \<open>usdc\<close> does not find the
  configured \<open>USDC\<close>, and the name of an inherited member is found and then
  reported as not enabled.
\<close>

lemma sep6_lookup_is_exact:
  "sep6DepositChecks sampleConfig sampleUser (Some ''usdc'') =
     Inl (Sep (badRequest ''Asset usdc is not supported''))"
  by (simp add: sep6DepositChecks_def truthy_def sampleUser_def readProperty_def sampleConfig_def
      objectPrototypeMembers_def)

lemma sep6_inherited_member:
  "sep6DepositChecks sampleConfig sampleUser (Some ''constructor'') =
     Inl (Sep (badRequest ''Deposits are not enabled for constructor''))"
  by (simp add: sep6DepositChecks_def truthy_def sampleUser_def readProperty_def sampleConfig_def
      objectPrototypeMembers_def)

subsection \<open>The error envelope\<close>

lemma update_keeps_defined:
  assumes "map_of obj k = Some v" "v \<noteq> JUndefined" "(k, JUndefined) \<notin> set kvs"
  shows "\<exists>v'. map_of (foldl (\<lambda>acc (k, v). AList.update k v acc) obj kvs) k = Some v' \<and>
               v' \<noteq> JUndefined"
  using assms
proof (induction kvs arbitrary: obj v)
  case Nil
  then show ?case by simp
next
  case (Cons p kvs)
  obtain k' v' where p: "p = (k', v')" by (cases p)
  show ?case
  proof (cases "k' = k")
    case True
    with Cons.prems p have "v' \<noteq> JUndefined" by auto
    moreover have "map_of (AList.update k' v' obj) k = Some v'"
      using True by (simp add: update_conv')
    ultimately show ?thesis
      using Cons.IH [of "AList.update k' v' obj" v'] Cons.prems(3) p by simp
  next
    case False
    then have "map_of (AList.update k' v' obj) k = Some v"
      using Cons.prems(1) by (simp add: update_conv')
    then show ?thesis
      using Cons.IH [of "AList.update k' v' obj" v] Cons.prems(2,3) p by simp
  qed
qed

lemma jsonKeys_member:
  "map_of obj k = Some v \<Longrightarrow> v \<noteq> JUndefined \<Longrightarrow> k \<in> set (jsonKeys obj)"
  by (force simp: jsonKeys_def dest: map_of_SomeD)

lemma toJSON_keys:
  assumes "\<forall>d. se_details e = Some d \<longrightarrow>
             (''error'', JUndefined) \<notin> set d \<and> (''code'', JUndefined) \<notin> set d"
  shows "''error'' \<in> set (jsonKeys (toJSON e)) \<and> ''code'' \<in> set (jsonKeys (toJSON e))"
proof (cases "se_details e")
  case None
  then show ?thesis by (simp add: toJSON_def spreadObject_def jsonKeys_def)
next
  case (Some d)
  with assms have d: "(''error'', JUndefined) \<notin> set d" "(''code'', JUndefined) \<notin> set d"
    by simp_all
  have "\<exists>v'. map_of (toJSON e) ''error'' = Some v' \<and> v' \<noteq> JUndefined"
    unfolding toJSON_def spreadObject_def Some option.case
    by (rule update_keeps_defined [where v = "JString (se_message e)", OF _ _ d(1)]) simp_all
  moreover have "\<exists>v'. map_of (toJSON e) ''code'' = Some v' \<and> v' \<noteq> JUndefined"
    unfolding toJSON_def spreadObject_def Some option.case
    by (rule update_keeps_defined [where v = "JString (se_code e)", OF _ _ d(2)]) simp_all
  ultimately show ?thesis by (blast intro: jsonKeys_member)
qed

lemma catch_keys:
  assumes "\<forall>e d. err = Sep e \<and> se_details e = Some d \<longrightarrow>
             (''error'', JUndefined) \<notin> set d \<and> (''code'', JUndefined) \<notin> set d"
  shows "''error'' \<in> set (jsonKeys (res_body (catchResponse dflt err))) \<and>
         ''code'' \<in> set (jsonKeys (res_body (catchResponse dflt err))) \<and>
         ''error'' \<in> set (jsonKeys (res_body (sep10CatchResponse err))) \<and>
         ''code'' \<in> set (jsonKeys (res_body (sep10CatchResponse err)))"
proof (cases err)
  case (Sep e)
  with assms have "\<forall>d. se_details e = Some d \<longrightarrow>
             (''error'', JUndefined) \<notin> set d \<and> (''code'', JUndefined) \<notin> set d"
    by simp
  from toJSON_keys [OF this] show ?thesis
    by (simp add: Sep catchResponse_def sep10CatchResponse_def)
next
  case (Other msg st)
  then show ?thesis
    by (simp add: catchResponse_def sep10CatchResponse_def toJSON_def spreadObject_def
        jsonKeys_def)
qed

lemma guard_rejection_keys:
  assumes "requireAuth sdk authHeader = Inl rejection"
  shows "jsonKeys (res_body rejection) = [''error''] \<and>
         (res_status rejection = 403 \<or> res_status rejection = 401)"
proof (cases authHeader)
  case None
  with assms show ?thesis by (auto simp: requireAuth_def jsonKeys_def)
next
  case (Some h)
  with assms show ?thesis
    by (auto simp: requireAuth_def jsonKeys_def Let_def split: if_splits option.splits)
qed

text \<open>
  C9 (as amended). By origin, the error responses of the HTTP surface are:
  from the \<open>catch\<close> block of a SEP-10, SEP-24 or SEP-6 route, whatever was
  thrown, a JSON object with an \<open>error\<close> and a \<open>code\<close> key, unless the
  details of a thrown \<open>SepError\<close> set one of the two to \<open>undefined\<close>;
  from the bearer-token guard, in each of its rejections, a JSON object with
  the single key \<open>error\<close> and status 403 or 401; from the \<open>catch\<close>
  block of the discovery route, a plain text with status 500.
\<close>

theorem error_responses_by_origin:
  "((\<forall>e d. err = Sep e \<and> se_details e = Some d \<longrightarrow>
       (''error'', JUndefined) \<notin> set d \<and> (''code'', JUndefined) \<notin> set d) \<longrightarrow>
      ''error'' \<in> set (jsonKeys (res_body (catchResponse dflt err))) \<and>
      ''code'' \<in> set (jsonKeys (res_body (catchResponse dflt err))) \<and>
      ''error'' \<in> set (jsonKeys (res_body (sep10CatchResponse err))) \<and>
      ''code'' \<in> set (jsonKeys (res_body (sep10CatchResponse err)))) \<and>
   (requireAuth sdk authHeader = Inl rejection \<longrightarrow>
      jsonKeys (res_body rejection) = [''error''] \<and>
      (res_status rejection = 403 \<or> res_status rejection = 401)) \<and>
   tomlCatchResponse thrownMessage =
     \<lparr> tr_status = 500, tr_contentType = None, tr_allowOrigin = None,
       tr_text = ''Error generating TOML: '' @
                 (case thrownMessage of Some m \<Rightarrow> m | None \<Rightarrow> ''Unknown error'') \<rparr>"
  using catch_keys [of err dflt] guard_rejection_keys [of sdk authHeader rejection]
  by (simp add: tomlCatchResponse_def)

theorem error_responses_by_origin_witness:
  "jsonKeys (res_body (catchResponse 500 (Sep detailedError))) = [''error'', ''code'', ''id''] \<and>
   ''error'' \<in> set (jsonKeys (res_body (catchResponse 500 (Sep detailedError)))) \<and>
   ''code'' \<in> set (jsonKeys (res_body (catchResponse 500 (Sep detailedError)))) \<and>
   requireAuth sampleSdk (Some ''Bearer abc'') =
     Inl \<lparr> res_status = 401, res_body = [(''error'', JString ''Invalid or expired token'')] \<rparr> \<and>
   jsonKeys [(''error'', JString ''Invalid or expired token'')] = [''error'']"
proof -
  have h: "\<forall>e d. Sep detailedError = Sep e \<and> se_details e = Some d \<longrightarrow>
             (''error'', JUndefined) \<notin> set d \<and> (''code'', JUndefined) \<notin> set d"
    by (auto simp: detailedError_def)
  have k: "jsonKeys (res_body (catchResponse 500 (Sep detailedError))) =
             [''error'', ''code'', ''id'']"
    by (simp add: catchResponse_def toJSON_def spreadObject_def jsonKeys_def detailedError_def)
  have g: "requireAuth sampleSdk (Some ''Bearer abc'') =
     Inl \<lparr> res_status = 401, res_body = [(''error'', JString ''Invalid or expired token'')] \<rparr>"
    by (simp add: requireAuth_def sampleSdk_def Let_def)
  from error_responses_by_origin
         [of "Sep detailedError" 500 sampleSdk "Some ''Bearer abc''"
             "\<lparr> res_status = 401, res_body = [(''error'', JString ''Invalid or expired token'')] \<rparr>"]
       h k g
  show ?thesis by simp
qed

text \<open>
  C9 as stated fails: a rejection of the guard is an object with an \<open>error\<close>
  key only; the discovery route's error is a text, not an object; and a thrown
  \<open>SepError\<close> whose details set \<open>code\<close> to \<open>undefined\<close> is sent without
  a \<open>code\<close>.
\<close>

theorem error_without_code_counterexample:
  "requireAuth sampleSdk None =
     Inl \<lparr> res_status = 403,
           res_body = [(''error'', JString ''Missing authorization header'')] \<rparr> \<and>
   jsonKeys [(''error'', JString ''Missing authorization header'')] = [''error''] \<and>
   tomlCatchResponse (Some ''boom'') =
     \<lparr> tr_status = 500, tr_contentType = None, tr_allowOrigin = None,
       tr_text = ''Error generating TOML: boom'' \<rparr> \<and>
   jsonKeys (res_body (catchResponse 400 (Sep undefinedCodeError))) = [''error'']"
  by (simp add: requireAuth_def jsonKeys_def tomlCatchResponse_def catchResponse_def toJSON_def
      spreadObject_def undefinedCodeError_def)

subsection \<open>Replay of a challenge\<close>

lemma verifyChallenge_keeps_issuer: "snd (verifyChallenge sdk nowSec ai signedChallenge) = ai"
  by (simp add: verifyChallenge_def Let_def split: sum.splits option.splits)

lemma sample_extract:
  "extractNonceFromTransaction
     \<lparr> operations = Some [\<lparr> op_type = ''manageData'',
                            op_value = Some (BufferValue ''bm9uY2U='') \<rparr>] \<rparr> = Some ''bm9uY2U=''"
  by (simp add: extractNonceFromTransaction_def)

lemma sample_challenge:
  "createChallenge sampleSdk 1000 sampleIssuer ''GCLIENT'' =
     (Inr (''challenge-xdr'', ''Test SDF Network ; September 2015''),
      sampleIssuer\<lparr> nonceStore := [''bm9uY2U='' \<mapsto> 1000] \<rparr>)"
  by (simp add: createChallenge_def sampleSdk_def sample_extract nonceAdd_def sampleIssuer_def)

lemma sample_verify:
  "verifyChallenge sampleSdk nowSec (sampleIssuer\<lparr> nonceStore := [''bm9uY2U='' \<mapsto> 1000] \<rparr>)
       ''signed-xdr'' =
     (Inr (''jwt-for-GCLIENT'', ''GCLIENT''),
      sampleIssuer\<lparr> nonceStore := [''bm9uY2U='' \<mapsto> 1000] \<rparr>)"
  by (simp add: verifyChallenge_def sampleSdk_def sample_extract nonceHas_def Let_def)

text \<open>
  C1 (the code departs from it). \<open>verifyChallenge\<close> only asks the nonce
  store whether the nonce is present and never changes the store. So after a
  challenge is created and its signed envelope verified, verifying the same
  envelope again succeeds and mints a token again, and \<open>POST /auth\<close> answers
  200; the nonce is still in the store afterwards.
\<close>

theorem verifyChallenge_replay_succeeds:
  "createChallenge sampleSdk 1000 sampleIssuer ''GCLIENT'' =
     (Inr (''challenge-xdr'', ''Test SDF Network ; September 2015''), challengedIssuer) \<and>
   verifyChallenge sampleSdk 2 challengedIssuer ''signed-xdr'' =
     (Inr (''jwt-for-GCLIENT'', ''GCLIENT''), challengedIssuer) \<and>
   verifyChallenge sampleSdk 3
       (snd (verifyChallenge sampleSdk 2 challengedIssuer ''signed-xdr'')) ''signed-xdr'' =
     (Inr (''jwt-for-GCLIENT'', ''GCLIENT''), challengedIssuer) \<and>
   fst (postAuth sampleSdk 3
          (snd (postAuth sampleSdk 2 challengedIssuer (Some ''signed-xdr'')))
          (Some ''signed-xdr'')) =
     \<lparr> res_status = 200, res_body = [(''token'', JString ''jwt-for-GCLIENT'')] \<rparr> \<and>
   nonceHas (nonceStore challengedIssuer) ''bm9uY2U=''"
  by (simp add: sample_challenge sample_verify postAuth_def challengedIssuer_def nonceHas_def)

subsection \<open>Endpoint keys of the discovery document\<close>

lemma in_replaceChar:
  "x \<in> set (replaceChar c r s) \<longleftrightarrow> (x \<in> set s \<and> x \<noteq> c) \<or> (c \<in> set s \<and> x \<in> set r)"
  by (induction s) (auto simp: replaceChar_def)

lemma escapeTomlString_no_newline: "CHR 0x0A \<notin> set (escapeTomlString s)"
  by (simp add: escapeTomlString_def in_replaceChar)

lemma splitOn_nonempty: "splitOn c xs \<noteq> []"
  by (induction xs) (auto split: list.splits)

lemma splitOn_line: "c \<notin> set l \<Longrightarrow> splitOn c (l @ c # rest) = l # splitOn c rest"
  by (induction l) (auto split: list.splits simp: splitOn_nonempty)

lemma splitOn_lines:
  "\<forall>l \<in> set ls. c \<notin> set l \<Longrightarrow>
     splitOn c (concat (map (\<lambda>l. l @ [c]) ls) @ rest) = ls @ splitOn c rest"
  by (induction ls) (simp_all add: splitOn_line)

lemma splitOn_head: "x \<noteq> c \<Longrightarrow> \<exists>w ws. splitOn c (x # xs) = (x # w) # ws"
  by (cases "splitOn c xs") (simp_all add: splitOn_nonempty)

lemma joinWith_unlines:
  "ls \<noteq> [] \<Longrightarrow> joinWith sep ls @ sep = concat (map (\<lambda>l. l @ sep) ls)"
  by (induction sep ls rule: joinWith.induct) simp_all

lemma topLevelLines_of_lines:
  assumes fr: "\<forall>l \<in> set front. CHR 0x0A \<notin> set l \<and> \<not> prefix ''['' l"
    and ne: "front \<noteq> []"
    and rest: "rest = [] \<or> (\<exists>h t. rest = [] # (CHR ''['' # h) # t)"
  shows "topLevelLines (joinWith [CHR 0x0A] (front @ rest) @ [CHR 0x0A]) = front @ [[]]"
proof -
  have j: "joinWith [CHR 0x0A] (front @ rest) @ [CHR 0x0A] =
           concat (map (\<lambda>l. l @ [CHR 0x0A]) front) @ concat (map (\<lambda>l. l @ [CHR 0x0A]) rest)"
    using ne by (simp add: joinWith_unlines)
  have s: "splitOn (CHR 0x0A) (joinWith [CHR 0x0A] (front @ rest) @ [CHR 0x0A]) =
           front @ splitOn (CHR 0x0A) (concat (map (\<lambda>l. l @ [CHR 0x0A]) rest))"
    unfolding j using fr by (simp add: splitOn_lines)
  have tw: "takeWhile (\<lambda>l. \<not> prefix ''['' l) (front @ xs) = front @ takeWhile (\<lambda>l. \<not> prefix ''['' l) xs"
    for xs using fr by (simp add: takeWhile_append2)
  from rest show ?thesis
  proof
    assume "rest = []"
    then show ?thesis unfolding topLevelLines_def s tw by simp
  next
    assume "\<exists>h t. rest = [] # (CHR ''['' # h) # t"
    then obtain h t where r: "rest = [] # (CHR ''['' # h) # t" by blast
    obtain w ws where
      "splitOn (CHR 0x0A) (CHR ''['' # h @ CHR 0x0A # concat (map (\<lambda>l. l @ [CHR 0x0A]) t)) =
         (CHR ''['' # w) # ws"
      using splitOn_head [of "CHR ''[''" "CHR 0x0A"] by force
    then show ?thesis
      unfolding topLevelLines_def s tw by (simp add: r)
  qed
qed

lemma tomlLines_split: "tomlLines server structure = headerLines structure @ sectionLines server structure"
  by (simp add: tomlLines_def headerLines_def sectionLines_def)

lemma sectionLines_shape:
  "sectionLines server structure = [] \<or>
   (\<exists>h t. sectionLines server structure = [] # (CHR ''['' # h) # t)"
proof (cases "DOCUMENTATION structure")
  case (Some d)
  then show ?thesis by (simp add: sectionLines_def)
next
  case None
  show ?thesis
  proof (cases "mapAssetsToCurrencies server")
    case Nil
    then show ?thesis by (simp add: sectionLines_def None)
  next
    case (Cons c cs)
    then show ?thesis by (simp add: sectionLines_def None)
  qed
qed

lemma string_line_no_newline:
  "CHR 0x0A \<notin> set k \<Longrightarrow> CHR 0x0A \<notin> set (toTomlKeyValue k (TString x))"
  by (simp add: toTomlKeyValue_def escapeTomlString_no_newline)

lemma line_not_header:
  "k \<noteq> [] \<Longrightarrow> hd k \<noteq> CHR ''['' \<Longrightarrow> \<not> prefix ''['' (toTomlKeyValue k v)"
  by (cases k; cases v) (simp_all add: toTomlKeyValue_def)

lemma headerLines_plain:
  "\<forall>l \<in> set (headerLines structure). CHR 0x0A \<notin> set l \<and> \<not> prefix ''['' l"
  unfolding headerLines_def
  by (auto simp: string_line_no_newline line_not_header)

lemma headerLines_nonempty: "headerLines structure \<noteq> []"
  by (simp add: headerLines_def)

lemma topLevelLines_stringifyToml:
  "topLevelLines (stringifyToml server structure) = headerLines structure @ [[]]"
  unfolding stringifyToml_def tomlLines_split
  by (rule topLevelLines_of_lines [OF headerLines_plain headerLines_nonempty sectionLines_shape])

lemma buildSepUrl_truthy: "truthy (Some (buildSepUrl d path))"
  by (simp add: truthy_def buildSepUrl_def getProtocol_def)

lemma endpoint_line_prefix:
  "k' \<in> {''SIGNING_KEY'', ''NETWORK_PASSPHRASE'', ''WEB_AUTH_ENDPOINT'',
          ''TRANSFER_SERVER_SEP0024'', ''TRANSFER_SERVER''} \<Longrightarrow>
   prefix (endpointKey m @ '' = '') (toTomlKeyValue k' (TString x)) \<longleftrightarrow> k' = endpointKey m"
  by (cases m) (auto simp: toTomlKeyValue_def endpointKey_def)

lemma truthy_endpoints:
  "truthy (WEB_AUTH_ENDPOINT (buildFromServer server)) \<longleftrightarrow> sep10 \<in> mountedModules server"
  "truthy (TRANSFER_SERVER_SEP0024 (buildFromServer server)) \<longleftrightarrow> sep24 \<in> mountedModules server"
  "truthy (TRANSFER_SERVER (buildFromServer server)) \<longleftrightarrow> sep6 \<in> mountedModules server"
  using buildSepUrl_truthy by (simp_all add: buildFromServer_def truthy_def)

lemma endpointKey_literals:
  "endpointKey m = ''WEB_AUTH_ENDPOINT'' \<longleftrightarrow> m = sep10"
  "endpointKey m = ''TRANSFER_SERVER_SEP0024'' \<longleftrightarrow> m = sep24"
  "endpointKey m = ''TRANSFER_SERVER'' \<longleftrightarrow> m = sep6"
  "endpointKey m \<noteq> ''SIGNING_KEY''"
  "endpointKey m \<noteq> ''NETWORK_PASSPHRASE''"
  by (cases m; simp add: endpointKey_def)+

lemma hasKey_header:
  "(\<exists>l \<in> set (headerLines (buildFromServer server) @ [[]]).
       prefix (endpointKey m @ '' = '') l) \<longleftrightarrow> m \<in> mountedModules server"
proof -
  have k: "''WEB_AUTH_ENDPOINT'' = endpointKey m \<longleftrightarrow> m = sep10"
    "''TRANSFER_SERVER_SEP0024'' = endpointKey m \<longleftrightarrow> m = sep24"
    "''TRANSFER_SERVER'' = endpointKey m \<longleftrightarrow> m = sep6"
    "''SIGNING_KEY'' \<noteq> endpointKey m"
    "''NETWORK_PASSPHRASE'' \<noteq> endpointKey m"
    using endpointKey_literals [of m] by metis+
  show ?thesis
    unfolding headerLines_def truthy_endpoints
    by (cases "sep10 \<in> mountedModules server"; cases "sep24 \<in> mountedModules server";
        cases "sep6 \<in> mountedModules server")
       (simp_all add: endpoint_line_prefix k, (cases m; simp)+)
qed

lemma hasKey_stringifyToml:
  "hasKey (endpointKey m) (stringifyToml server (buildFromServer server)) \<longleftrightarrow>
     m \<in> mountedModules server"
  unfolding hasKey_def topLevelLines_stringifyToml by (rule hasKey_header)

lemma render_fresh:
  "\<not> truthy (cachedToml pub) \<Longrightarrow>
     render server pub =
       (stringifyToml server (buildFromServer server),
        pub\<lparr> cachedToml := Some (stringifyToml server (buildFromServer server)) \<rparr>)"
  by (simp add: render_def Let_def)

lemma render_cached:
  "truthy (cachedToml pub) \<Longrightarrow> render server pub = (the (cachedToml pub), pub)"
  by (simp add: render_def)

lemma stringifyToml_truthy: "truthy (Some (stringifyToml server structure))"
  by (simp add: truthy_def stringifyToml_def)

text \<open>
  C6 (as amended). A render that is not served from the publisher's cache (the
  cache is empty, or \<open>invalidateCache\<close> was called) yields a document in
  which the endpoint key of a module is present exactly when the module is
  mounted at that time, and caches that document. A render with a cached
  document returns it as it is, whatever the server's mounted modules are
  then: mounting a module does not invalidate the cache.
\<close>

theorem render_reflects_mounts_unless_cached:
  "(\<not> truthy (cachedToml pub) \<longrightarrow>
      (hasKey (endpointKey m) (fst (render server pub)) \<longleftrightarrow> m \<in> mountedModules server) \<and>
      cachedToml (snd (render server pub)) = Some (fst (render server pub))) \<and>
   (hasKey (endpointKey m) (fst (render server (invalidateCache pub))) \<longleftrightarrow>
      m \<in> mountedModules server) \<and>
   (truthy (cachedToml pub) \<longrightarrow> render server pub = (the (cachedToml pub), pub))"
proof -
  have "\<not> truthy (cachedToml (invalidateCache pub))"
    by (simp add: invalidateCache_def truthy_def)
  then show ?thesis
    by (simp add: render_fresh render_cached hasKey_stringifyToml)
qed

theorem render_reflects_mounts_unless_cached_witness:
  "\<not> truthy (cachedToml newPublisher) \<and>
   hasKey ''WEB_AUTH_ENDPOINT'' (fst (render (mount_sep10 sampleServer) newPublisher)) \<and>
   \<not> hasKey ''TRANSFER_SERVER_SEP0024'' (fst (render (mount_sep10 sampleServer) newPublisher)) \<and>
   \<not> hasKey ''TRANSFER_SERVER'' (fst (render (mount_sep10 sampleServer) newPublisher))"
proof -
  have n: "\<not> truthy (cachedToml newPublisher)"
    by (simp add: newPublisher_def truthy_def)
  have m: "mountedModules (mount_sep10 sampleServer) = {sep10}"
    by (simp add: mount_sep10_def sampleServer_def)
  from render_reflects_mounts_unless_cached [of newPublisher sep10 "mount_sep10 sampleServer"]
       render_reflects_mounts_unless_cached [of newPublisher sep24 "mount_sep10 sampleServer"]
       render_reflects_mounts_unless_cached [of newPublisher sep6 "mount_sep10 sampleServer"]
       n m
  show ?thesis by (simp add: endpointKey_def)
qed

text \<open>
  C6 as stated fails: mount SEP-10, render, mount SEP-24, render again with the
  same publisher. The second document is the first one and lacks
  \<open>TRANSFER_SERVER_SEP0024\<close>, although SEP-24 is mounted.
\<close>

theorem render_after_mount_is_stale_counterexample:
  "mount_sep24 (Some ''https://example.com/interactive'') (mount_sep10 sampleServer) =
     Inr bothMounted \<and>
   sep24 \<in> mountedModules bothMounted \<and>
   fst (render bothMounted (snd (render (mount_sep10 sampleServer) newPublisher))) =
     fst (render (mount_sep10 sampleServer) newPublisher) \<and>
   \<not> hasKey ''TRANSFER_SERVER_SEP0024''
       (fst (render bothMounted (snd (render (mount_sep10 sampleServer) newPublisher))))"
proof -
  have n: "\<not> truthy (cachedToml newPublisher)"
    by (simp add: newPublisher_def truthy_def)
  have m: "sep24 \<notin> mountedModules (mount_sep10 sampleServer)"
    by (simp add: mount_sep10_def sampleServer_def)
  have h: "\<not> hasKey (endpointKey sep24)
              (stringifyToml (mount_sep10 sampleServer) (buildFromServer (mount_sep10 sampleServer)))"
    using m by (simp add: hasKey_stringifyToml)
  have b: "mount_sep24 (Some ''https://example.com/interactive'') (mount_sep10 sampleServer) =
             Inr bothMounted"
    by (simp add: mount_sep24_def bothMounted_def)
  have c: "sep24 \<in> mountedModules bothMounted"
    by (simp add: bothMounted_def)
  show ?thesis
    using h b c
    by (simp add: render_fresh [OF n] render_cached stringifyToml_truthy endpointKey_def)
qed

subsection \<open>Scheme of the endpoint URLs\<close>




lemma sibling_base_url_is_http:
  "getBaseUrl (sampleConfig\<lparr> domain := ''127.0.0.1:8000'' \<rparr>) = ''http://127.0.0.1:8000''"
  by (simp add: getBaseUrl_def trim_def)

end
